theory Spec2Isabelle
  imports
    Main
    "HOL-Library.Char_ord"
    "HOL-Library.List_Lexorder"
    "HOL-Library.Multiset"
begin

section \<open>arxiv-daily: the fetch / merge / render pipeline of \<open>daily_arxiv.py\<close>\<close>

text \<open>
  The script is sequential. Its effects are file reads and writes, log lines, one line on
  standard output, and two kinds of network request. The model threads an explicit
  \<open>state\<close> (files, working directory, log, standard output) through every function and
  takes the network, the clock and the Unicode case tables as a \<open>world\<close> of functions.
  Every Python exception is a value of type \<open>exn\<close>; a function that can raise returns
  \<open>exn + 'a\<close> with \<open>Inl\<close> for the exception.

  Strings are byte strings (UTF-8); the order on them, from \<open>Char_ord\<close> and
  \<open>List_Lexorder\<close>, is lexicographic by byte, which on UTF-8 agrees with Python's
  comparison of \<open>str\<close> by code point.
\<close>

subsection \<open>Exceptions\<close>

text \<open>
  All of these are subclasses of Python's \<open>Exception\<close>, so \<open>except Exception\<close> catches each
  of them. The argument is the name, path or message the exception carries.
\<close>

datatype exn =
    NameError string
  | TypeError string
  | IndexError string
  | AttributeError string
  | FileExistsError string
  | FileNotFoundError string
  | IsADirectoryError string
  | NotADirectoryError string
  | JSONDecodeError string
  | YAMLError string
  | RequestException string
  | ArxivError string

subsection \<open>Data model\<close>

text \<open>A Paper Record: the dict literal of lines 80 to 87, every field a string.\<close>

record paper =
  title :: string
  authors :: string
  abstract :: string
  pdf :: string
  code :: string
  updated :: string

text \<open>
  A Python dict keeps its keys in insertion order, and the renderer's stable sort makes
  that order observable, so a dict is an association list in insertion order.
  \<open>d[k] = v\<close> replaces the value in place when \<open>k\<close> is present and appends otherwise.
\<close>

type_synonym store = "(string \<times> paper) list"

fun dict_setitem :: "'k \<Rightarrow> 'v \<Rightarrow> ('k \<times> 'v) list \<Rightarrow> ('k \<times> 'v) list" where
  "dict_setitem k v [] = [(k, v)]"
| "dict_setitem k v ((k', v') # d) =
     (if k' = k then (k', v) # d else (k', v') # dict_setitem k v d)"

text \<open>\<open>**src\<close> inside a dict display whose items so far are \<open>d\<close>.\<close>

definition dict_unpack :: "('k \<times> 'v) list \<Rightarrow> ('k \<times> 'v) list \<Rightarrow> ('k \<times> 'v) list" where
  "dict_unpack src d = fold (\<lambda>(k, v). dict_setitem k v) src d"

text \<open>A well-formed dict has each key once.\<close>

definition is_dict :: "('k \<times> 'v) list \<Rightarrow> bool" where
  "is_dict d = distinct (map fst d)"

text \<open>What \<open>fetch_papers\<close> hands back: \<open>None\<close> or a dict.\<close>

datatype pyval = PyNone | PyDict store

text \<open>The configuration as \<open>yaml.safe_load\<close> returns it, and after \<open>load_config\<close>.\<close>

record yaml_category =
  query :: string
  output_dir :: string

record category = yaml_category +
  json_path :: string
  md_path :: string

record yaml_config =
  yaml_categories :: "(string \<times> yaml_category) list"
  yaml_max_results :: int

record config =
  categories :: "(string \<times> category) list"
  max_results :: int

subsection \<open>The state: files, working directory, log, standard output\<close>

text \<open>
  A file holds either a JSON document, kept as the dict that \<open>json.load\<close> returns for it
  (\<open>json.dump\<close> followed by \<open>json.load\<close> is the identity on dicts of string records), or
  text that is not JSON.

  The file system is a tree without symbolic links or permissions: a map from locations
  to nodes, where a location is the list of names leading from the root to the node.
\<close>

datatype content = Json store | Text string

datatype node = Dir | File content

type_synonym loc = "string list"

type_synonym tree = "loc \<Rightarrow> node option"

datatype level = INFO | ERROR

datatype message =
    LoadedConfiguration config
  | FailedCodeLink string exn
  | GeneratedMarkdown string string
  | ProcessingCategory string
  | SuccessfullyUpdated string
  | FailedToProcess string exn

datatype printed = PaperLen nat

record state =
  files :: tree
  cwd :: loc
  logged :: "(level \<times> message) list"
  stdout :: "printed list"

text \<open>In a well-formed state the root and the working directory are directories.\<close>

definition wf_state :: "state \<Rightarrow> bool" where
  "wf_state st = (files st [] = Some Dir \<and> files st (cwd st) = Some Dir)"

definition logging_info :: "message \<Rightarrow> state \<Rightarrow> state" where
  "logging_info m st = st\<lparr>logged := logged st @ [(INFO, m)]\<rparr>"

definition logging_error :: "message \<Rightarrow> state \<Rightarrow> state" where
  "logging_error m st = st\<lparr>logged := logged st @ [(ERROR, m)]\<rparr>"

definition py_print :: "printed \<Rightarrow> state \<Rightarrow> state" where
  "py_print x st = st\<lparr>stdout := stdout st @ [x]\<rparr>"

subsection \<open>Paths\<close>

text \<open>\<open>s.split(c)\<close> for a single character \<open>c\<close>\<close>

fun split_at :: "char \<Rightarrow> string \<Rightarrow> string list" where
  "split_at c [] = [[]]"
| "split_at c (x # xs) =
     (if x = c then [] # split_at c xs
      else (case split_at c xs of [] \<Rightarrow> [[x]] | y # ys \<Rightarrow> (x # y) # ys))"

text \<open>
  The names of a path, in order: empty names (from a leading, a trailing or a doubled
  slash) do not count. A path that starts with a slash is resolved from the root, any
  other from the working directory.
\<close>

definition components :: "string \<Rightarrow> string list" where
  "components p = filter (\<lambda>s. s \<noteq> []) (split_at CHR ''/'' p)"

definition start_loc :: "state \<Rightarrow> string \<Rightarrow> loc" where
  "start_loc st p = (if p \<noteq> [] \<and> hd p = CHR ''/'' then [] else cwd st)"

text \<open>One name further from the directory at \<open>d\<close>.\<close>

definition step :: "loc \<Rightarrow> string \<Rightarrow> loc" where
  "step d c = (if c = ''.'' then d else if c = ''..'' then butlast d else d @ [c])"

datatype errno = ENOENT | ENOTDIR | EEXIST | EISDIR

fun os_error :: "errno \<Rightarrow> string \<Rightarrow> exn" where
  "os_error ENOENT p = FileNotFoundError p"
| "os_error ENOTDIR p = NotADirectoryError p"
| "os_error EEXIST p = FileExistsError p"
| "os_error EISDIR p = IsADirectoryError p"

text \<open>
  Path resolution: every name but the last is looked up in a directory that must exist;
  the result is the location reached and the node there.
\<close>

fun lookup :: "tree \<Rightarrow> loc \<Rightarrow> string list \<Rightarrow> errno + loc \<times> node" where
  "lookup t d [] = (case t d of None \<Rightarrow> Inl ENOENT | Some n \<Rightarrow> Inr (d, n))"
| "lookup t d (c # cs) =
     (case t d of
        None \<Rightarrow> Inl ENOENT
      | Some (File x) \<Rightarrow> Inl ENOTDIR
      | Some Dir \<Rightarrow> lookup t (step d c) cs)"

text \<open>\<open>os.stat(p)\<close>: a regular file cannot be named with a trailing slash.\<close>

definition stat :: "string \<Rightarrow> state \<Rightarrow> errno + loc \<times> node" where
  "stat p st =
     (if p = [] then Inl ENOENT
      else case lookup (files st) (start_loc st p) (components p) of
        Inl e \<Rightarrow> Inl e
      | Inr (l, Dir) \<Rightarrow> Inr (l, Dir)
      | Inr (l, File x) \<Rightarrow> if last p = CHR ''/'' then Inl ENOTDIR else Inr (l, File x))"

text \<open>\<open>os.path.exists(p)\<close> and \<open>os.path.isdir(p)\<close>\<close>

definition path_exists :: "string \<Rightarrow> state \<Rightarrow> bool" where
  "path_exists p st = (case stat p st of Inl e \<Rightarrow> False | Inr r \<Rightarrow> True)"

definition isdir :: "string \<Rightarrow> state \<Rightarrow> bool" where
  "isdir p st = (case stat p st of Inl e \<Rightarrow> False | Inr (l, n) \<Rightarrow> n = Dir)"

text \<open>
  \<open>os.makedirs(p, exist_ok=True)\<close>, name by name: a missing directory is created, an
  existing one is entered, and a regular file in the way ends the call, with
  \<open>FileExistsError\<close> when it is the leaf and \<open>NotADirectoryError\<close> otherwise. The
  directories created before a failure stay.
\<close>

fun mkdirs :: "tree \<Rightarrow> loc \<Rightarrow> string list \<Rightarrow> tree \<times> (errno + unit)" where
  "mkdirs t d [] = (t, Inr ())"
| "mkdirs t d (c # cs) =
     (case t (step d c) of
        None \<Rightarrow> mkdirs (t(step d c \<mapsto> Dir)) (step d c) cs
      | Some Dir \<Rightarrow> mkdirs t (step d c) cs
      | Some (File x) \<Rightarrow> (t, Inl (if cs = [] then EEXIST else ENOTDIR)))"

definition makedirs :: "string \<Rightarrow> state \<Rightarrow> state \<times> (exn + unit)" where
  "makedirs p st =
     (if p = [] then (st, Inl (FileNotFoundError p))
      else case mkdirs (files st) (start_loc st p) (components p) of
        (t, Inl e) \<Rightarrow> (st\<lparr>files := t\<rparr>, Inl (os_error e p))
      | (t, Inr u) \<Rightarrow> (st\<lparr>files := t\<rparr>, Inr ()))"

text \<open>\<open>with open(p, 'r') as f: f.read()\<close> and \<open>with open(p, 'r') as f: json.load(f)\<close>\<close>

definition read_file :: "string \<Rightarrow> state \<Rightarrow> exn + content" where
  "read_file p st =
     (case stat p st of
        Inl e \<Rightarrow> Inl (os_error e p)
      | Inr (l, Dir) \<Rightarrow> Inl (IsADirectoryError p)
      | Inr (l, File x) \<Rightarrow> Inr x)"

definition read_json :: "string \<Rightarrow> state \<Rightarrow> exn + store" where
  "read_json p st =
     (case read_file p st of
        Inl e \<Rightarrow> Inl e
      | Inr (Text t) \<Rightarrow> Inl (JSONDecodeError p)
      | Inr (Json d) \<Rightarrow> Inr d)"

text \<open>
  \<open>with open(p, 'w') as f: ...\<close> writing the whole content \<open>x\<close>: the directory of the file
  must exist; the file is created or replaced.
\<close>

definition write_file :: "string \<Rightarrow> content \<Rightarrow> state \<Rightarrow> state \<times> (exn + unit)" where
  "write_file p x st =
     (if p = [] then (st, Inl (FileNotFoundError p))
      else if last p = CHR ''/'' then (st, Inl (IsADirectoryError p))
      else
        (case lookup (files st) (start_loc st p) (butlast (components p)) of
           Inl e \<Rightarrow> (st, Inl (os_error e p))
         | Inr (d, File y) \<Rightarrow> (st, Inl (NotADirectoryError p))
         | Inr (d, Dir) \<Rightarrow>
             (if last (components p) = ''.'' \<or> last (components p) = ''..''
              then (st, Inl (IsADirectoryError p))
              else (case files st (d @ [last (components p)]) of
                      Some Dir \<Rightarrow> (st, Inl (IsADirectoryError p))
                    | _ \<Rightarrow> (st\<lparr>files := (files st)(d @ [last (components p)] \<mapsto> File x)\<rparr>,
                            Inr ())))))"

subsection \<open>The world: network and clock\<close>

text \<open>
  The payload of the code-link service, up to what \<open>get_code_link\<close> inspects: whether the
  payload is a JSON object, whether its \<open>official\<close> member is absent, an object, or
  anything else (\<open>null\<close> included), and whether that object's \<open>url\<close> member is a string
  or absent (\<open>null\<close> included).
\<close>

datatype url_member = NoUrl | Url string

datatype official_member = NoOfficial | OfficialObject url_member | OfficialOther

datatype payload = PayloadObject official_member | PayloadOther

text \<open>
  One result of the search API, as the fields the fetcher reads: \<open>get_short_id()\<close>,
  \<open>title\<close>, the authors' names, \<open>summary\<close>, and \<open>str(updated.date())\<close>.
\<close>

record hit =
  short_id :: string
  hit_title :: string
  hit_authors :: "string list"
  summary :: string
  updated_date :: string

text \<open>
  A client maps a query and a result cap to the results its generator yields, followed
  by the exception that ends the iteration early, if any.
\<close>

type_synonym client = "string \<Rightarrow> int \<Rightarrow> hit list \<times> exn option"

text \<open>
  \<open>str_title\<close> is Python's \<open>str.title\<close>, whose result depends on the Unicode case tables
  of the interpreter.
\<close>

record world =
  read_yaml :: "string \<Rightarrow> exn + yaml_config"
  http_get_json :: "string \<Rightarrow> exn + payload"
  today :: string
  str_title :: "string \<Rightarrow> string"

subsection \<open>String helpers\<close>

text \<open>\<open>sep.join(xs)\<close>\<close>

fun join :: "string \<Rightarrow> string list \<Rightarrow> string" where
  "join sep [] = []"
| "join sep [x] = x"
| "join sep (x # y # ys) = x @ sep @ join sep (y # ys)"

text \<open>\<open>s.replace(a, b)\<close> for single characters \<open>a\<close> and \<open>b\<close>\<close>

definition replace_char :: "char \<Rightarrow> char \<Rightarrow> string \<Rightarrow> string" where
  "replace_char a b s = map (\<lambda>c. if c = a then b else c) s"

text \<open>\<open>s.split(c)[0]\<close>: everything before the first occurrence of \<open>c\<close>\<close>

definition split_first :: "char \<Rightarrow> string \<Rightarrow> string" where
  "split_first c s = takeWhile (\<lambda>x. x \<noteq> c) s"

text \<open>
  What \<open>s.title()\<close> returns for ASCII text \<open>s\<close>: a letter after a letter is lowered, any
  other letter is raised. The examples below take it for \<open>str_title\<close>, on ASCII names.
\<close>

definition is_lower :: "char \<Rightarrow> bool" where
  "is_lower c = (CHR ''a'' \<le> c \<and> c \<le> CHR ''z'')"

definition is_upper :: "char \<Rightarrow> bool" where
  "is_upper c = (CHR ''A'' \<le> c \<and> c \<le> CHR ''Z'')"

definition to_upper :: "char \<Rightarrow> char" where
  "to_upper c = (if is_lower c then char_of (of_char c - (32::nat)) else c)"

definition to_lower :: "char \<Rightarrow> char" where
  "to_lower c = (if is_upper c then char_of (of_char c + (32::nat)) else c)"

fun title_from :: "bool \<Rightarrow> string \<Rightarrow> string" where
  "title_from previous_is_cased [] = []"
| "title_from previous_is_cased (c # cs) =
     (if is_lower c then
        (if previous_is_cased then c else to_upper c) # title_from True cs
      else if is_upper c then
        (if previous_is_cased then to_lower c else c) # title_from True cs
      else c # title_from False cs)"

definition ascii_title :: "string \<Rightarrow> string" where
  "ascii_title s = title_from False s"

text \<open>\<open>os.path.join(a, b)\<close> and \<open>os.path.basename(p)\<close> (POSIX)\<close>

definition path_join :: "string \<Rightarrow> string \<Rightarrow> string" where
  "path_join a b =
     (if b \<noteq> [] \<and> hd b = CHR ''/'' then b
      else if a = [] \<or> last a = CHR ''/'' then a @ b
      else a @ ''/'' @ b)"

definition basename :: "string \<Rightarrow> string" where
  "basename p = rev (takeWhile (\<lambda>c. c \<noteq> CHR ''/'') (rev p))"

text \<open>
  \<open>sorted(xs, key=key, reverse=True)\<close>. Python's sort is stable; with \<open>reverse=True\<close> it
  reverses the list, sorts it stably in ascending order and reverses the result, so
  that equal keys keep their original order. \<open>sort_key\<close> is a stable insertion sort.
\<close>

definition sorted_reverse :: "('a \<Rightarrow> 'k::linorder) \<Rightarrow> 'a list \<Rightarrow> 'a list" where
  "sorted_reverse key xs = rev (sort_key key (rev xs))"

text \<open>\<open>dict(items)\<close> for a list of key-value pairs\<close>

definition dict_of_items :: "('k \<times> 'v) list \<Rightarrow> ('k \<times> 'v) list" where
  "dict_of_items items = dict_unpack items []"

subsection \<open>\<open>load_config\<close> (lines 24 to 37)\<close>

definition derive_paths :: "yaml_category \<Rightarrow> category" where
  "derive_paths cat =
     \<lparr>query = query cat, output_dir = output_dir cat,
      json_path = path_join (output_dir cat) ''papers.json'',
      md_path = path_join (output_dir cat) ''README.md''\<rparr>"

definition load_config :: "world \<Rightarrow> string \<Rightarrow> state \<Rightarrow> state \<times> (exn + config)" where
  "load_config w config_file st =
     (case read_yaml w config_file of
        Inl e \<Rightarrow> (st, Inl e)
      | Inr y \<Rightarrow>
          (let config = \<lparr>categories = map (\<lambda>(name, cat). (name, derive_paths cat)) (yaml_categories y),
                         max_results = yaml_max_results y\<rparr>
           in (logging_info (LoadedConfiguration config) st, Inr config)))"

subsection \<open>\<open>get_authors\<close> and \<open>get_code_link\<close> (lines 39 to 55)\<close>

definition get_authors :: "string list \<Rightarrow> bool \<Rightarrow> exn + string" where
  "get_authors names first_author =
     (if first_author then
        (case names of [] \<Rightarrow> Inl (IndexError ''list index out of range'') | a # _ \<Rightarrow> Inr a)
      else Inr (join '', '' names))"

text \<open>Lines 43 to 45; the script never calls it.\<close>

definition sort_papers :: "store \<Rightarrow> store" where
  "sort_papers papers = dict_of_items (sorted_reverse fst papers)"

text \<open>\<open>response.get('official', {}).get('url')\<close>: \<open>.get\<close> exists on dicts only.\<close>

definition official_url :: "payload \<Rightarrow> exn + string option" where
  "official_url response =
     (case response of
        PayloadOther \<Rightarrow> Inl (AttributeError ''get'')
      | PayloadObject NoOfficial \<Rightarrow> Inr None
      | PayloadObject OfficialOther \<Rightarrow> Inl (AttributeError ''get'')
      | PayloadObject (OfficialObject NoUrl) \<Rightarrow> Inr None
      | PayloadObject (OfficialObject (Url u)) \<Rightarrow> Inr (Some u))"

text \<open>The body of the \<open>try\<close> block.\<close>

definition get_code_link_try :: "world \<Rightarrow> string \<Rightarrow> exn + string option" where
  "get_code_link_try w paper_id =
     (let code_url = ''https://arxiv.paperswithcode.com/api/v0/papers/'' @ paper_id
      in case http_get_json w code_url of
           Inl e \<Rightarrow> Inl e
         | Inr response \<Rightarrow> official_url response)"

definition get_code_link :: "world \<Rightarrow> string \<Rightarrow> state \<Rightarrow> state \<times> string option" where
  "get_code_link w paper_id st =
     (case get_code_link_try w paper_id of
        Inr url \<Rightarrow> (st, url)
      | Inl e \<Rightarrow> (logging_error (FailedCodeLink paper_id e) st, None))"

subsection \<open>\<open>fetch_papers\<close> (lines 57 to 91)\<close>

definition ARXIV_URL :: string where
  "ARXIV_URL = ''http://arxiv.org/''"

text \<open>\<open>x or "null"\<close>: \<open>None\<close> and the empty string are falsy.\<close>

definition or_null :: "string option \<Rightarrow> string" where
  "or_null x = (case x of None \<Rightarrow> ''null'' | Some s \<Rightarrow> if s = [] then ''null'' else s)"

text \<open>The body of the \<open>for\<close> loop, lines 68 to 87, for one result.\<close>

definition process_result :: "world \<Rightarrow> hit \<Rightarrow> store \<Rightarrow> state \<Rightarrow> state \<times> (exn + store)" where
  "process_result w result papers st =
     (let paper_id = short_id result;
          update_time = updated_date result;
          clean_id = split_first CHR ''v'' paper_id;
          pdf_url = ARXIV_URL @ ''abs/'' @ clean_id;
          abstract_text = replace_char (CHR 0x0A) CHR '' '' (summary result);
          (st1, link) = get_code_link w clean_id st;
          code_link = or_null link
      in case get_authors (hit_authors result) False of
           Inl e \<Rightarrow> (st1, Inl e)
         | Inr names \<Rightarrow>
             (st1, Inr (dict_setitem paper_id
                \<lparr>title = hit_title result, authors = names, abstract = abstract_text,
                 pdf = pdf_url, code = code_link, updated = update_time\<rparr> papers)))"

fun fetch_loop :: "world \<Rightarrow> hit list \<Rightarrow> store \<Rightarrow> state \<Rightarrow> state \<times> (exn + store)" where
  "fetch_loop w [] papers st = (st, Inr papers)"
| "fetch_loop w (result # rest) papers st =
     (case process_result w result papers st of
        (st1, Inl e) \<Rightarrow> (st1, Inl e)
      | (st1, Inr papers1) \<Rightarrow> fetch_loop w rest papers1 st1)"

text \<open>
  Lines 60 to 91, once \<open>Client()\<close> has produced a client. The function ends after the
  \<open>print\<close>: \<open>return papers\<close> is commented out, so the caller receives \<open>None\<close>.
\<close>

definition fetch_papers_with ::
  "client \<Rightarrow> world \<Rightarrow> string \<Rightarrow> int \<Rightarrow> state \<Rightarrow> state \<times> (exn + pyval)" where
  "fetch_papers_with client w query_string cap st =
     (case client query_string cap of
        (results, failure) \<Rightarrow>
          (case fetch_loop w results [] st of
             (st1, Inl e) \<Rightarrow> (st1, Inl e)
           | (st1, Inr papers) \<Rightarrow>
               (case failure of
                  Some e \<Rightarrow> (st1, Inl e)
                | None \<Rightarrow> (py_print (PaperLen (length papers)) st1, Inr PyNone))))"

text \<open>
  The module imports \<open>arxiv\<close> but never binds the name \<open>Client\<close>: it is neither defined nor
  imported in \<open>daily_arxiv.py\<close>, and it is not a builtin. Line 59 looks it up at call time.
\<close>

definition global_Client :: "client option" where
  "global_Client = None"

definition fetch_papers :: "world \<Rightarrow> string \<Rightarrow> int \<Rightarrow> state \<Rightarrow> state \<times> (exn + pyval)" where
  "fetch_papers w query_string cap st =
     (case global_Client of
        None \<Rightarrow> (st, Inl (NameError ''Client''))
      | Some client \<Rightarrow> fetch_papers_with client w query_string cap st)"

subsection \<open>\<open>generate_markdown\<close> (lines 124 to 148)\<close>

definition sorted_papers :: "store \<Rightarrow> paper list" where
  "sorted_papers data = sorted_reverse updated (map snd data)"

definition md_header :: "world \<Rightarrow> string \<Rightarrow> string list" where
  "md_header w category_name =
     [''# '' @ str_title w (replace_char CHR ''-'' CHR '' '' category_name) @ '' Papers'',
      ''*Last Updated: '' @ today w @ ''*'' @ [CHR 0x0A],
      ''| Date | Title | Authors | PDF | Code |'',
      ''|------|-------|---------|-----|------|'']"

definition md_row :: "paper \<Rightarrow> string" where
  "md_row p =
     (let code_link = (if code p \<noteq> ''null'' then ''[Code]('' @ code p @ '')'' else ''null'')
      in ''| '' @ updated p @ '' | '' @ title p @ '' | '' @ authors p @ '' | ''
         @ ''[PDF]('' @ pdf p @ '') | '' @ code_link @ '' |'')"

definition md_content :: "world \<Rightarrow> store \<Rightarrow> string \<Rightarrow> string list" where
  "md_content w data category_name = md_header w category_name @ map md_row (sorted_papers data)"

definition generate_markdown ::
  "world \<Rightarrow> store \<Rightarrow> string \<Rightarrow> string \<Rightarrow> state \<Rightarrow> state \<times> (exn + unit)" where
  "generate_markdown w data output_path category_name st =
     (case write_file output_path (Text (join [CHR 0x0A] (md_content w data category_name))) st of
        (st1, Inl e) \<Rightarrow> (st1, Inl e)
      | (st1, Inr u) \<Rightarrow> (logging_info (GeneratedMarkdown category_name output_path) st1, Inr ()))"

subsection \<open>\<open>update_category_data\<close> (lines 93 to 122)\<close>

text \<open>Line 111: \<open>{**papers, **existing_data}\<close>. Unpacking \<open>None\<close> raises \<open>TypeError\<close>.\<close>

definition merge_data :: "pyval \<Rightarrow> store \<Rightarrow> exn + store" where
  "merge_data papers existing_data =
     (case papers of
        PyNone \<Rightarrow> Inl (TypeError '''NoneType' object is not a mapping'')
      | PyDict p \<Rightarrow> Inr (dict_unpack existing_data (dict_unpack p [])))"

text \<open>Lines 104 to 108.\<close>

definition load_existing :: "string \<Rightarrow> state \<Rightarrow> exn + store" where
  "load_existing p st = (if path_exists p st then read_json p st else Inr [])"

text \<open>
  The function with its callee \<open>fetch_papers\<close> as a parameter, so that the steps after
  the fetch can be examined for any outcome of the fetch.
\<close>

definition update_category_data_with ::
  "(world \<Rightarrow> string \<Rightarrow> int \<Rightarrow> state \<Rightarrow> state \<times> (exn + pyval))
    \<Rightarrow> world \<Rightarrow> category \<Rightarrow> config \<Rightarrow> state \<Rightarrow> state \<times> (exn + unit)" where
  "update_category_data_with fetch w category_config global_config st =
     (case makedirs (output_dir category_config) st of
        (st1, Inl e) \<Rightarrow> (st1, Inl e)
      | (st1, Inr u) \<Rightarrow>
     (case fetch w (query category_config) (max_results global_config) st1 of
        (st2, Inl e) \<Rightarrow> (st2, Inl e)
      | (st2, Inr papers) \<Rightarrow>
     (case load_existing (json_path category_config) st2 of
        Inl e \<Rightarrow> (st2, Inl e)
      | Inr existing_data \<Rightarrow>
     (case merge_data papers existing_data of
        Inl e \<Rightarrow> (st2, Inl e)
      | Inr merged_data \<Rightarrow>
     (case write_file (json_path category_config) (Json merged_data) st2 of
        (st3, Inl e) \<Rightarrow> (st3, Inl e)
      | (st3, Inr u) \<Rightarrow>
          generate_markdown w merged_data (md_path category_config)
            (basename (output_dir category_config)) st3)))))"

definition update_category_data ::
  "world \<Rightarrow> category \<Rightarrow> config \<Rightarrow> state \<Rightarrow> state \<times> (exn + unit)" where
  "update_category_data = update_category_data_with fetch_papers"

subsection \<open>\<open>main\<close> (lines 150 to 158)\<close>

text \<open>
  The loop of the driver, with its callee \<open>update_category_data\<close> as the parameter
  \<open>update\<close>, so that the driver can be examined for any outcome of an update.
\<close>

fun main_loop ::
  "(world \<Rightarrow> category \<Rightarrow> config \<Rightarrow> state \<Rightarrow> state \<times> (exn + unit))
    \<Rightarrow> world \<Rightarrow> config \<Rightarrow> (string \<times> category) list \<Rightarrow> state \<Rightarrow> state" where
  "main_loop update w config [] st = st"
| "main_loop update w config ((cat_name, cat_config) # rest) st =
     (case update w cat_config config (logging_info (ProcessingCategory cat_name) st) of
        (st1, Inr u) \<Rightarrow>
          main_loop update w config rest (logging_info (SuccessfullyUpdated cat_name) st1)
      | (st1, Inl e) \<Rightarrow>
          main_loop update w config rest (logging_error (FailedToProcess cat_name e) st1))"

definition main_with ::
  "(world \<Rightarrow> category \<Rightarrow> config \<Rightarrow> state \<Rightarrow> state \<times> (exn + unit))
    \<Rightarrow> world \<Rightarrow> config \<Rightarrow> state \<Rightarrow> state" where
  "main_with update w config st = main_loop update w config (categories config) st"

definition main :: "world \<Rightarrow> config \<Rightarrow> state \<Rightarrow> state" where
  "main = main_with update_category_data"

subsection \<open>Single-line records\<close>

text \<open>A record whose rendered fields hold no newline.\<close>

definition one_line :: "paper \<Rightarrow> bool" where
  "one_line p =
     (CHR 0x0A \<notin> set (updated p) \<and> CHR 0x0A \<notin> set (title p) \<and> CHR 0x0A \<notin> set (authors p)
      \<and> CHR 0x0A \<notin> set (pdf p) \<and> CHR 0x0A \<notin> set (code p))"

section \<open>Dict displays and item assignment\<close>

lemma keys_setitem:
  "map fst (dict_setitem k v d) = (if k \<in> set (map fst d) then map fst d else map fst d @ [k])"
  by (induction d) (auto simp add: rev_image_eqI)

lemma map_of_setitem: "map_of (dict_setitem k v d) = (map_of d)(k \<mapsto> v)"
  by (induction d) (auto simp add: fun_eq_iff)

lemma is_dict_setitem: "is_dict d \<Longrightarrow> is_dict (dict_setitem k v d)"
  unfolding is_dict_def keys_setitem by simp

lemma dict_unpack_Nil: "dict_unpack [] d = d"
  by (simp add: dict_unpack_def)

lemma dict_unpack_Cons: "dict_unpack ((k, v) # src) d = dict_unpack src (dict_setitem k v d)"
  by (simp add: dict_unpack_def)

lemma dict_unpack_append: "dict_unpack (xs @ ys) d = dict_unpack ys (dict_unpack xs d)"
  by (simp add: dict_unpack_def)

lemma is_dict_unpack: "is_dict d \<Longrightarrow> is_dict (dict_unpack src d)"
proof (induction src arbitrary: d)
  case Nil
  then show ?case by (simp add: dict_unpack_Nil)
next
  case (Cons a src)
  obtain k v where a: "a = (k, v)" by (cases a)
  show ?case unfolding a dict_unpack_Cons
    by (rule Cons.IH) (rule is_dict_setitem [OF Cons.prems])
qed

lemma keys_unpack_prefix: "\<exists>ks. map fst (dict_unpack src d) = map fst d @ ks"
proof (induction src arbitrary: d)
  case Nil
  show ?case by (simp add: dict_unpack_Nil)
next
  case (Cons a src)
  obtain k v where a: "a = (k, v)" by (cases a)
  from Cons.IH [of "dict_setitem k v d"]
  obtain ks where "map fst (dict_unpack src (dict_setitem k v d)) = map fst (dict_setitem k v d) @ ks"
    by blast
  then show ?case unfolding a dict_unpack_Cons
    by (auto simp add: keys_setitem)
qed

lemma map_of_unpack:
  "is_dict src \<Longrightarrow> map_of (dict_unpack src d) = map_of d ++ map_of src"
proof (induction src arbitrary: d)
  case Nil
  show ?case by (simp add: dict_unpack_Nil)
next
  case (Cons a src)
  obtain k v where a: "a = (k, v)" by (cases a)
  from Cons.prems have d: "is_dict src" and nk: "k \<notin> fst ` set src"
    by (auto simp add: is_dict_def a)
  have none: "map_of src k = None" using nk by (simp add: map_of_eq_None_iff)
  have "map_of (dict_unpack src (dict_setitem k v d)) = (map_of d)(k \<mapsto> v) ++ map_of src"
    by (simp only: Cons.IH [OF d] map_of_setitem)
  also have "\<dots> = map_of d ++ map_of ((k, v) # src)"
  proof (rule ext)
    fix x
    show "((map_of d)(k \<mapsto> v) ++ map_of src) x = (map_of d ++ map_of ((k, v) # src)) x"
      using none by (cases "x = k") (simp_all add: map_add_def split: option.splits)
  qed
  finally show ?case unfolding a dict_unpack_Cons .
qed

lemma setitem_new: "k \<notin> fst ` set d \<Longrightarrow> dict_setitem k v d = d @ [(k, v)]"
  by (induction d) auto

lemma setitem_here:
  "k \<notin> fst ` set xs \<Longrightarrow> dict_setitem k v (xs @ (k, v') # ys) = xs @ (k, v) # ys"
  by (induction xs) auto

lemma unpack_new: "is_dict (d @ src) \<Longrightarrow> dict_unpack src d = d @ src"
proof (induction src arbitrary: d)
  case Nil
  show ?case by (simp add: dict_unpack_Nil)
next
  case (Cons a src)
  obtain k v where a: "a = (k, v)" by (cases a)
  from Cons.prems have nk: "k \<notin> fst ` set d" by (auto simp add: is_dict_def a)
  from Cons.prems have "is_dict ((d @ [(k, v)]) @ src)" by (simp add: a)
  from Cons.IH [OF this] show ?case unfolding a dict_unpack_Cons
    by (simp add: setitem_new [OF nk])
qed

lemma unpack_same_keys:
  "is_dict (xs @ src) \<Longrightarrow> map fst d = map fst src \<Longrightarrow> dict_unpack src (xs @ d) = xs @ src"
proof (induction src arbitrary: xs d)
  case Nil
  then show ?case by (simp add: dict_unpack_Nil)
next
  case (Cons a src)
  obtain k v where a: "a = (k, v)" by (cases a)
  from Cons.prems(2) obtain v' d' where d: "d = (k, v') # d'" and keys: "map fst d' = map fst src"
    by (cases d) (auto simp add: a)
  from Cons.prems(1) have nk: "k \<notin> fst ` set xs" by (auto simp add: is_dict_def a)
  from Cons.prems(1) have "is_dict ((xs @ [(k, v)]) @ src)" by (simp add: a)
  from Cons.IH [OF this keys] show ?case unfolding a d dict_unpack_Cons
    by (simp add: setitem_here [OF nk])
qed

lemma unpack_extension:
  assumes "is_dict m" and "map fst m = map fst d @ ks"
  shows "dict_unpack m d = m"
proof -
  define n where "n = length d"
  have m: "m = take n m @ drop n m" by simp
  have keys: "map fst d = map fst (take n m)"
    using assms(2) by (simp add: n_def take_map [symmetric])
  have d1: "is_dict ([] @ take n m)"
    using assms(1) unfolding is_dict_def by (simp add: take_map [symmetric])
  have d2: "is_dict (take n m @ drop n m)" using assms(1) by simp
  have "dict_unpack m d = dict_unpack (drop n m) (dict_unpack (take n m) ([] @ d))"
    using dict_unpack_append [of "take n m" "drop n m" d] by simp
  also have "\<dots> = dict_unpack (drop n m) (take n m)"
    using unpack_same_keys [OF d1 keys] by simp
  also have "\<dots> = m"
    using unpack_new [OF d2] by simp
  finally show ?thesis .
qed

section \<open>The merge of line 111\<close>

lemma merge_data_dict:
  "merge_data (PyDict P) E = Inr (dict_unpack E (dict_unpack P []))"
  by (simp add: merge_data_def)

lemma is_dict_Nil: "is_dict []"
  by (simp add: is_dict_def)

lemma is_dict_merged: "is_dict (dict_unpack E (dict_unpack P []))"
  by (intro is_dict_unpack is_dict_Nil)

lemma map_of_merged:
  assumes "is_dict P" and "is_dict E"
  shows "map_of (dict_unpack E (dict_unpack P [])) = map_of P ++ map_of E"
proof -
  have "map_of (dict_unpack P []) = map_of P"
    using map_of_unpack [OF assms(1), of "[]"] by simp
  then show ?thesis
    using map_of_unpack [OF assms(2), of "dict_unpack P []"] by simp
qed

text \<open>
  C1 (as stated, refuted). The claim says that on a shared identifier the merged store
  holds the freshly fetched record. In \<open>{**papers, **existing_data}\<close> the right operand is
  unpacked last and overwrites: for a fetched record that has found a code link and a
  stored record of the same identifier that has none, the merged store keeps the stored
  record.
\<close>

theorem merge_new_wins_counterexample:
  "merge_data
     (PyDict [(''2401.00001v1'',
        \<lparr>title = ''Example Paper'', authors = ''Jane Doe'', abstract = ''Line1 Line2'',
         pdf = ''http://arxiv.org/abs/2401.00001'', code = ''https://github.com/jd/example'',
         updated = ''2024-01-03''\<rparr>)])
     [(''2401.00001v1'',
        \<lparr>title = ''Example Paper'', authors = ''Jane Doe'', abstract = ''Line1 Line2'',
         pdf = ''http://arxiv.org/abs/2401.00001'', code = ''null'',
         updated = ''2024-01-02''\<rparr>)]
   = Inr [(''2401.00001v1'',
        \<lparr>title = ''Example Paper'', authors = ''Jane Doe'', abstract = ''Line1 Line2'',
         pdf = ''http://arxiv.org/abs/2401.00001'', code = ''null'',
         updated = ''2024-01-02''\<rparr>)]
   \<and> \<lparr>title = ''Example Paper'', authors = ''Jane Doe'', abstract = ''Line1 Line2'',
         pdf = ''http://arxiv.org/abs/2401.00001'', code = ''null'',
         updated = ''2024-01-02''\<rparr>
     \<noteq> \<lparr>title = ''Example Paper'', authors = ''Jane Doe'', abstract = ''Line1 Line2'',
         pdf = ''http://arxiv.org/abs/2401.00001'', code = ''https://github.com/jd/example'',
         updated = ''2024-01-03''\<rparr>"
  by (simp add: merge_data_def dict_unpack_def)

text \<open>
  C1 (amended). For a fetched dict \<open>P\<close> and an existing store \<open>E\<close> that share an identifier
  \<open>k\<close>, the merge of line 111 succeeds, the merged store maps \<open>k\<close> to the stored record
  \<open>E[k]\<close> (existing wins), and the merged store is the union of \<open>P\<close> and \<open>E\<close> with \<open>E\<close>
  taking precedence on every key collision.
\<close>

theorem merge_existing_wins:
  assumes "is_dict P" and "is_dict E"
    and "map_of P k = Some fetched" and "map_of E k = Some stored"
  shows "\<exists>M. merge_data (PyDict P) E = Inr M \<and> is_dict M
           \<and> map_of M k = Some stored \<and> map_of M = map_of P ++ map_of E"
proof -
  let ?M = "dict_unpack E (dict_unpack P [])"
  have m: "map_of ?M = map_of P ++ map_of E"
    by (rule map_of_merged [OF assms(1,2)])
  have "map_of ?M k = Some stored"
    by (simp add: m map_add_def assms(4))
  with m show ?thesis
    by (simp add: merge_data_dict is_dict_merged)
qed

theorem merge_existing_wins_witness:
  "is_dict [(''2401.00001v1'',
        \<lparr>title = ''Example Paper'', authors = ''Jane Doe'', abstract = ''Line1 Line2'',
         pdf = ''http://arxiv.org/abs/2401.00001'', code = ''https://github.com/jd/example'',
         updated = ''2024-01-03''\<rparr>)]
   \<and> is_dict [(''2401.00001v1'',
        \<lparr>title = ''Example Paper'', authors = ''Jane Doe'', abstract = ''Line1 Line2'',
         pdf = ''http://arxiv.org/abs/2401.00001'', code = ''null'',
         updated = ''2024-01-02''\<rparr>)]
   \<and> (\<exists>M. merge_data
          (PyDict [(''2401.00001v1'',
             \<lparr>title = ''Example Paper'', authors = ''Jane Doe'', abstract = ''Line1 Line2'',
              pdf = ''http://arxiv.org/abs/2401.00001'', code = ''https://github.com/jd/example'',
              updated = ''2024-01-03''\<rparr>)])
          [(''2401.00001v1'',
             \<lparr>title = ''Example Paper'', authors = ''Jane Doe'', abstract = ''Line1 Line2'',
              pdf = ''http://arxiv.org/abs/2401.00001'', code = ''null'',
              updated = ''2024-01-02''\<rparr>)] = Inr M
        \<and> map_of M ''2401.00001v1'' =
            Some \<lparr>title = ''Example Paper'', authors = ''Jane Doe'', abstract = ''Line1 Line2'',
              pdf = ''http://arxiv.org/abs/2401.00001'', code = ''null'',
              updated = ''2024-01-02''\<rparr>)"
proof -
  let ?new = "\<lparr>title = ''Example Paper'', authors = ''Jane Doe'', abstract = ''Line1 Line2'',
         pdf = ''http://arxiv.org/abs/2401.00001'', code = ''https://github.com/jd/example'',
         updated = ''2024-01-03''\<rparr>"
  let ?old = "\<lparr>title = ''Example Paper'', authors = ''Jane Doe'', abstract = ''Line1 Line2'',
         pdf = ''http://arxiv.org/abs/2401.00001'', code = ''null'',
         updated = ''2024-01-02''\<rparr>"
  have p: "is_dict [(''2401.00001v1'', ?new)]" by (simp add: is_dict_def)
  have e: "is_dict [(''2401.00001v1'', ?old)]" by (simp add: is_dict_def)
  have kp: "map_of [(''2401.00001v1'', ?new)] ''2401.00001v1'' = Some ?new" by simp
  have ke: "map_of [(''2401.00001v1'', ?old)] ''2401.00001v1'' = Some ?old" by simp
  from merge_existing_wins [OF p e kp ke] p e show ?thesis by blast
qed

text \<open>
  C7. Every identifier of the existing store \<open>E\<close> is an identifier of the merged store,
  whatever was fetched: the merge drops no existing record. (On this code the record
  under such an identifier is even the stored one, unchanged.)
\<close>

theorem merge_keeps_existing:
  assumes "is_dict E" and "map_of E k = Some stored"
  shows "\<exists>M. merge_data (PyDict P) E = Inr M \<and> k \<in> fst ` set M \<and> map_of M k = Some stored"
proof -
  let ?M = "dict_unpack E (dict_unpack P [])"
  have "map_of ?M = map_of (dict_unpack P []) ++ map_of E"
    by (rule map_of_unpack [OF assms(1)])
  then have k: "map_of ?M k = Some stored"
    by (simp add: map_add_def assms(2))
  then have "k \<in> fst ` set ?M"
    by (force dest: map_of_SomeD)
  with k show ?thesis
    by (simp add: merge_data_dict)
qed

theorem merge_keeps_existing_witness:
  "is_dict [(''2312.09999v2'',
        \<lparr>title = ''Older Paper'', authors = ''John Roe'', abstract = ''Text'',
         pdf = ''http://arxiv.org/abs/2312.09999'', code = ''null'',
         updated = ''2023-12-20''\<rparr>)]
   \<and> (\<exists>M. merge_data
          (PyDict [(''2401.00001v1'',
             \<lparr>title = ''Example Paper'', authors = ''Jane Doe'', abstract = ''Line1 Line2'',
              pdf = ''http://arxiv.org/abs/2401.00001'', code = ''null'',
              updated = ''2024-01-02''\<rparr>)])
          [(''2312.09999v2'',
             \<lparr>title = ''Older Paper'', authors = ''John Roe'', abstract = ''Text'',
              pdf = ''http://arxiv.org/abs/2312.09999'', code = ''null'',
              updated = ''2023-12-20''\<rparr>)] = Inr M
        \<and> ''2312.09999v2'' \<in> fst ` set M)"
proof -
  let ?old = "\<lparr>title = ''Older Paper'', authors = ''John Roe'', abstract = ''Text'',
         pdf = ''http://arxiv.org/abs/2312.09999'', code = ''null'',
         updated = ''2023-12-20''\<rparr>"
  have e: "is_dict [(''2312.09999v2'', ?old)]" by (simp add: is_dict_def)
  have ke: "map_of [(''2312.09999v2'', ?old)] ''2312.09999v2'' = Some ?old" by simp
  from merge_keeps_existing [OF e ke] e show ?thesis by blast
qed

text \<open>
  C8. Merging the same fetched dict \<open>P\<close> a second time, into the store that the first
  merge produced, gives that store again, item for item and in the same order.
\<close>

theorem merge_idempotent:
  "\<exists>M. merge_data (PyDict P) E = Inr M \<and> merge_data (PyDict P) M = Inr M"
proof -
  let ?P = "dict_unpack P ([] :: store)"
  let ?M = "dict_unpack E ?P"
  have dM: "is_dict ?M" by (rule is_dict_merged)
  obtain ks where "map fst ?M = map fst ?P @ ks"
    using keys_unpack_prefix by blast
  from unpack_extension [OF dM this] show ?thesis
    by (simp add: merge_data_dict)
qed

section \<open>The file system\<close>

lemma mkdirs_only_adds_dirs:
  "mkdirs t d cs = (t1, r) \<Longrightarrow> t1 l = t l \<or> (t l = None \<and> t1 l = Some Dir)"
proof (induction cs arbitrary: t d)
  case Nil
  then show ?case by simp
next
  case (Cons c cs)
  show ?case
  proof (cases "t (step d c)")
    case None
    with Cons.prems have "mkdirs (t(step d c \<mapsto> Dir)) (step d c) cs = (t1, r)" by simp
    from Cons.IH [OF this] None show ?thesis by (auto split: if_splits)
  next
    case (Some n)
    show ?thesis
    proof (cases n)
      case Dir
      with Some Cons.prems have "mkdirs t (step d c) cs = (t1, r)" by simp
      from Cons.IH [OF this] show ?thesis .
    next
      case (File x)
      with Some Cons.prems show ?thesis by simp
    qed
  qed
qed

lemma mkdirs_keeps_dir: "mkdirs t d cs = (t1, r) \<Longrightarrow> t l = Some Dir \<Longrightarrow> t1 l = Some Dir"
  using mkdirs_only_adds_dirs [of t d cs t1 r l] by auto

lemma mkdirs_lookup:
  "mkdirs t d cs = (t1, Inr ()) \<Longrightarrow> t d = Some Dir \<Longrightarrow> \<exists>l. lookup t1 d cs = Inr (l, Dir)"
proof (induction cs arbitrary: t d)
  case Nil
  then show ?case by simp
next
  case (Cons c cs)
  have d1: "t1 d = Some Dir"
    by (rule mkdirs_keeps_dir [OF Cons.prems])
  show ?case
  proof (cases "t (step d c)")
    case None
    with Cons.prems have m: "mkdirs (t(step d c \<mapsto> Dir)) (step d c) cs = (t1, Inr ())" by simp
    from Cons.IH [OF m] show ?thesis by (simp add: d1)
  next
    case (Some n)
    show ?thesis
    proof (cases n)
      case Dir
      with Some Cons.prems have m: "mkdirs t (step d c) cs = (t1, Inr ())" by simp
      from Cons.IH [OF m] Some Dir show ?thesis by (simp add: d1)
    next
      case (File x)
      with Some Cons.prems show ?thesis by simp
    qed
  qed
qed

lemma start_loc_is_dir: "wf_state st \<Longrightarrow> files st (start_loc st p) = Some Dir"
  by (simp add: wf_state_def start_loc_def)

lemma makedirs_effect:
  assumes "makedirs p st = (st1, r)"
  shows "cwd st1 = cwd st \<and> logged st1 = logged st \<and> stdout st1 = stdout st
    \<and> (\<forall>l. files st1 l = files st l \<or> (files st l = None \<and> files st1 l = Some Dir))"
proof (cases "p = []")
  case True
  with assms show ?thesis by (simp add: makedirs_def)
next
  case False
  obtain t1 r1 where m: "mkdirs (files st) (start_loc st p) (components p) = (t1, r1)"
    by (cases "mkdirs (files st) (start_loc st p) (components p)")
  from assms False m have "st1 = st\<lparr>files := t1\<rparr>"
    by (cases r1) (simp_all add: makedirs_def)
  with mkdirs_only_adds_dirs [OF m] show ?thesis by simp
qed

lemma makedirs_keeps_files:
  assumes "makedirs p st = (st1, r)"
  shows "files st1 l = Some (File x) \<longleftrightarrow> files st l = Some (File x)"
  using makedirs_effect [OF assms] by (metis node.distinct(1) option.distinct(1) option.inject)

lemma makedirs_keeps_wf: "makedirs p st = (st1, r) \<Longrightarrow> wf_state st \<Longrightarrow> wf_state st1"
  using makedirs_effect [of p st st1 r] unfolding wf_state_def
  by (metis option.distinct(1))

lemma makedirs_isdir:
  assumes "makedirs p st = (st1, Inr ())" and "wf_state st"
  shows "isdir p st1"
proof -
  from assms(1) have p: "p \<noteq> []" by (auto simp add: makedirs_def)
  obtain t1 r1 where m: "mkdirs (files st) (start_loc st p) (components p) = (t1, r1)"
    by (cases "mkdirs (files st) (start_loc st p) (components p)")
  from assms(1) p m have r1: "r1 = Inr ()" and st1: "st1 = st\<lparr>files := t1\<rparr>"
    by (cases r1; simp add: makedirs_def)+
  from mkdirs_lookup [OF m [unfolded r1] start_loc_is_dir [OF assms(2)]]
  obtain l where l: "lookup t1 (start_loc st p) (components p) = Inr (l, Dir)" by blast
  have "start_loc st1 p = start_loc st p" and "files st1 = t1"
    by (simp_all add: st1 start_loc_def)
  with l show ?thesis
    by (simp add: isdir_def stat_def p)
qed

section \<open>The fetcher\<close>

lemma fetch_papers_NameError: "fetch_papers w q n st = (st, Inl (NameError ''Client''))"
  by (simp add: fetch_papers_def global_Client_def)

lemma update_category_data_unfold:
  "update_category_data w cc gc st =
     (case makedirs (output_dir cc) st of
        (st1, Inl e) \<Rightarrow> (st1, Inl e)
      | (st1, Inr u) \<Rightarrow> (st1, Inl (NameError ''Client'')))"
  by (simp add: update_category_data_def update_category_data_with_def fetch_papers_NameError
      split: prod.splits sum.splits)

text \<open>
  C3 (as stated, refuted). The claim says that for any category the updater stops at the
  fetch having already created the output directory. When \<open>os.makedirs\<close> raises, the
  updater stops there: with a regular file named \<open>papers\<close> in the way of
  \<open>papers/cs.CL\<close> it raises \<open>NotADirectoryError\<close>, and with an empty \<open>output_dir\<close> it raises
  \<open>FileNotFoundError\<close>; in both cases the state is unchanged, the output directory
  does not exist, and the fetch is not called.
\<close>

theorem update_category_data_created_directory_counterexample:
  "update_category_data
     \<lparr>read_yaml = (\<lambda>f. Inl (YAMLError f)), http_get_json = (\<lambda>u. Inl (RequestException u)),
      today = ''2024-01-05'', str_title = ascii_title\<rparr>
     \<lparr>query = ''cat:cs.CL'', output_dir = ''papers/cs.CL'',
      json_path = ''papers/cs.CL/papers.json'', md_path = ''papers/cs.CL/README.md''\<rparr>
     \<lparr>categories = [], max_results = 1\<rparr>
     \<lparr>files = (\<lambda>l. None)([] \<mapsto> Dir, [''papers''] \<mapsto> File (Text ''notes'')),
      cwd = [], logged = [], stdout = []\<rparr>
   = (\<lparr>files = (\<lambda>l. None)([] \<mapsto> Dir, [''papers''] \<mapsto> File (Text ''notes'')),
       cwd = [], logged = [], stdout = []\<rparr>,
      Inl (NotADirectoryError ''papers/cs.CL''))
   \<and> \<not> isdir ''papers/cs.CL''
        \<lparr>files = (\<lambda>l. None)([] \<mapsto> Dir, [''papers''] \<mapsto> File (Text ''notes'')),
         cwd = [], logged = [], stdout = []\<rparr>
   \<and> update_category_data
     \<lparr>read_yaml = (\<lambda>f. Inl (YAMLError f)), http_get_json = (\<lambda>u. Inl (RequestException u)),
      today = ''2024-01-05'', str_title = ascii_title\<rparr>
     \<lparr>query = ''cat:cs.CL'', output_dir = '''',
      json_path = ''papers.json'', md_path = ''README.md''\<rparr>
     \<lparr>categories = [], max_results = 1\<rparr>
     \<lparr>files = (\<lambda>l. None)([] \<mapsto> Dir), cwd = [], logged = [], stdout = []\<rparr>
   = (\<lparr>files = (\<lambda>l. None)([] \<mapsto> Dir), cwd = [], logged = [], stdout = []\<rparr>,
      Inl (FileNotFoundError ''''))
   \<and> \<not> isdir '''' \<lparr>files = (\<lambda>l. None)([] \<mapsto> Dir), cwd = [], logged = [], stdout = []\<rparr>"
  by (simp add: update_category_data_unfold makedirs_def components_def start_loc_def step_def
      isdir_def stat_def)

text \<open>
  C3 (amended). For every query and result cap, \<open>fetch_papers\<close> raises \<open>NameError\<close> at line
  59 with the state untouched: no request is made and no record is built. Hence
  \<open>update_category_data\<close> raises for every category and never reaches the merge, the JSON
  write or the Markdown write: the regular files and their contents are as before, and
  so are the log and the standard output. When \<open>os.makedirs\<close> succeeds, the exception is
  that \<open>NameError\<close> and the output directory exists by then; when \<open>os.makedirs\<close> raises,
  its exception is the one that propagates.
\<close>

theorem update_category_data_stops_at_fetch:
  assumes "wf_state st"
  shows "fetch_papers w q n st = (st, Inl (NameError ''Client''))
   \<and> (case makedirs (output_dir cc) st of
        (st1, Inl e) \<Rightarrow> update_category_data w cc gc st = (st1, Inl e)
      | (st1, Inr u) \<Rightarrow>
          update_category_data w cc gc st = (st1, Inl (NameError ''Client''))
          \<and> isdir (output_dir cc) st1)
   \<and> (\<forall>l x. files (fst (update_category_data w cc gc st)) l = Some (File x)
          \<longleftrightarrow> files st l = Some (File x))
   \<and> logged (fst (update_category_data w cc gc st)) = logged st
   \<and> stdout (fst (update_category_data w cc gc st)) = stdout st"
proof -
  obtain st1 r where m: "makedirs (output_dir cc) st = (st1, r)"
    by (cases "makedirs (output_dir cc) st")
  have u: "fst (update_category_data w cc gc st) = st1"
    by (cases r) (simp_all add: update_category_data_unfold m)
  have files: "files st1 l = Some (File x) \<longleftrightarrow> files st l = Some (File x)" for l x
    by (rule makedirs_keeps_files [OF m])
  have rest: "logged st1 = logged st \<and> stdout st1 = stdout st"
    using makedirs_effect [OF m] by simp
  have dir: "isdir (output_dir cc) st1" if "r = Inr ()"
    using makedirs_isdir [OF m [unfolded that] assms] .
  show ?thesis
    unfolding u using files rest dir
    by (cases r) (simp_all add: fetch_papers_NameError update_category_data_unfold m)
qed

theorem update_category_data_stops_at_fetch_witness:
  "wf_state \<lparr>files = (\<lambda>l. None)([] \<mapsto> Dir), cwd = [], logged = [], stdout = []\<rparr>
   \<and> update_category_data
     \<lparr>read_yaml = (\<lambda>f. Inl (YAMLError f)), http_get_json = (\<lambda>u. Inl (RequestException u)),
      today = ''2024-01-05'', str_title = ascii_title\<rparr>
     \<lparr>query = ''cat:cs.CL'', output_dir = ''papers/cs.CL'',
      json_path = ''papers/cs.CL/papers.json'', md_path = ''papers/cs.CL/README.md''\<rparr>
     \<lparr>categories = [], max_results = 1\<rparr>
     \<lparr>files = (\<lambda>l. None)([] \<mapsto> Dir), cwd = [], logged = [], stdout = []\<rparr>
   = (\<lparr>files = (\<lambda>l. None)([] \<mapsto> Dir, [''papers''] \<mapsto> Dir, [''papers'', ''cs.CL''] \<mapsto> Dir),
       cwd = [], logged = [], stdout = []\<rparr>,
      Inl (NameError ''Client''))
   \<and> isdir ''papers/cs.CL''
       \<lparr>files = (\<lambda>l. None)([] \<mapsto> Dir, [''papers''] \<mapsto> Dir, [''papers'', ''cs.CL''] \<mapsto> Dir),
        cwd = [], logged = [], stdout = []\<rparr>"
proof -
  have wf: "wf_state \<lparr>files = (\<lambda>l. None)([] \<mapsto> Dir), cwd = [], logged = [], stdout = []\<rparr>"
    by (simp add: wf_state_def)
  from update_category_data_stops_at_fetch
    [OF wf, where cc = "\<lparr>query = ''cat:cs.CL'', output_dir = ''papers/cs.CL'',
        json_path = ''papers/cs.CL/papers.json'', md_path = ''papers/cs.CL/README.md''\<rparr>"
      and w = "\<lparr>read_yaml = (\<lambda>f. Inl (YAMLError f)),
        http_get_json = (\<lambda>u. Inl (RequestException u)),
        today = ''2024-01-05'', str_title = ascii_title\<rparr>"
      and gc = "\<lparr>categories = [], max_results = 1\<rparr>"]
  show ?thesis
    using wf by (simp add: makedirs_def components_def start_loc_def step_def)
qed

section \<open>After the fetch\<close>

lemma fetch_papers_with_returns_None:
  "fetch_papers_with client w q n st = (st', Inr v) \<Longrightarrow> v = PyNone"
  by (auto simp add: fetch_papers_with_def split: prod.splits sum.splits option.splits)

lemma merge_data_None: "merge_data PyNone E = Inl (TypeError '''NoneType' object is not a mapping'')"
  by (simp add: merge_data_def)

lemma update_category_data_with_None:
  assumes "makedirs (output_dir cc) st = (st1, Inr ())"
    and "fetch w (query cc) (max_results gc) st1 = (st2, Inr PyNone)"
  shows "\<exists>e. update_category_data_with fetch w cc gc st = (st2, Inl e)"
  using assms
  by (simp add: update_category_data_with_def merge_data_None split: sum.splits)

text \<open>
  C2 (the code at the failing input). The claim says that when the fetch returns no
  value, merge, persist and render still complete on the existing store alone. Take the
  fetch with a working client, one result, no stored file: the loop builds one record,
  prints the count and returns \<open>None\<close>; unpacking \<open>None\<close> in the dict display of line 111
  raises \<open>TypeError\<close>, and neither file is written.
\<close>

theorem update_category_data_fetch_none_raises:
  "update_category_data_with
     (fetch_papers_with (\<lambda>q n.
        ([\<lparr>short_id = ''2401.00001v1'', hit_title = ''Example Paper'',
           hit_authors = [''Jane Doe''], summary = ''Line1'' @ [CHR 0x0A] @ ''Line2'',
           updated_date = ''2024-01-02''\<rparr>], None)))
     \<lparr>read_yaml = (\<lambda>f. Inl (YAMLError f)),
      http_get_json = (\<lambda>u. Inr (PayloadObject NoOfficial)),
      today = ''2024-01-05'', str_title = ascii_title\<rparr>
     \<lparr>query = ''cat:cs.CL'', output_dir = ''papers/cs.CL'',
      json_path = ''papers/cs.CL/papers.json'', md_path = ''papers/cs.CL/README.md''\<rparr>
     \<lparr>categories = [], max_results = 1\<rparr>
     \<lparr>files = (\<lambda>l. None)([] \<mapsto> Dir), cwd = [], logged = [], stdout = []\<rparr>
   = (\<lparr>files = (\<lambda>l. None)([] \<mapsto> Dir, [''papers''] \<mapsto> Dir, [''papers'', ''cs.CL''] \<mapsto> Dir),
       cwd = [], logged = [], stdout = [PaperLen 1]\<rparr>,
      Inl (TypeError '''NoneType' object is not a mapping''))"
  by (simp add: update_category_data_with_def fetch_papers_with_def process_result_def
      get_code_link_def get_code_link_try_def official_url_def get_authors_def or_null_def
      makedirs_def components_def start_loc_def step_def stat_def
      load_existing_def path_exists_def merge_data_def py_print_def Let_def)

section \<open>Reading back what was written\<close>

lemma split_at_nonempty: "split_at c s \<noteq> []"
  by (induction s) (auto split: list.splits)

lemma last_split_at_nonempty:
  "s \<noteq> [] \<Longrightarrow> last s \<noteq> c \<Longrightarrow> last (split_at c s) \<noteq> []"
proof (induction s)
  case Nil
  then show ?case by simp
next
  case (Cons x xs)
  show ?case
  proof (cases "xs = []")
    case True
    with Cons.prems show ?thesis by simp
  next
    case False
    with Cons.prems have "last (split_at c xs) \<noteq> []"
      by (intro Cons.IH) simp_all
    then show ?thesis
      using split_at_nonempty [of c xs] by (auto split: list.splits)
  qed
qed

lemma last_filter_nonempty:
  "xs \<noteq> [] \<Longrightarrow> last xs \<noteq> [] \<Longrightarrow>
     filter (\<lambda>s. s \<noteq> []) xs \<noteq> [] \<and> last (filter (\<lambda>s. s \<noteq> []) xs) = last xs"
  by (induction xs) (auto split: if_splits)

lemma components_last:
  assumes "p \<noteq> []" and "last p \<noteq> CHR ''/''"
  shows "components p \<noteq> []" and "last (components p) = last (split_at CHR ''/'' p)"
  using last_filter_nonempty [OF split_at_nonempty last_split_at_nonempty [OF assms]]
  by (simp_all add: components_def)

lemma split_at_plain: "c \<notin> set s \<Longrightarrow> split_at c s = [s]"
  by (induction s) auto

lemma split_at_append:
  "split_at c (a @ c # b) = split_at c a @ split_at c b"
proof (induction a)
  case Nil
  show ?case by simp
next
  case (Cons x xs)
  obtain y ys where "split_at c xs = y # ys"
    using split_at_nonempty [of c xs] by (cases "split_at c xs") auto
  with Cons show ?case by simp
qed


lemma lookup_node: "lookup t d cs = Inr (l, n) \<Longrightarrow> t l = Some n"
  by (induction cs arbitrary: d) (auto split: option.splits node.splits)

lemma lookup_snoc:
  "lookup t d (cs @ [c]) =
     (case lookup t d cs of
        Inl e \<Rightarrow> Inl e
      | Inr (l, File x) \<Rightarrow> Inl ENOTDIR
      | Inr (l, Dir) \<Rightarrow> (case t (step l c) of None \<Rightarrow> Inl ENOENT | Some n \<Rightarrow> Inr (step l c, n)))"
  by (induction cs arbitrary: d) (auto split: option.splits node.splits)

lemma lookup_stable:
  "lookup t d cs = Inr (l, n) \<Longrightarrow> t k \<noteq> Some Dir \<Longrightarrow> l \<noteq> k
    \<Longrightarrow> lookup (t(k \<mapsto> v)) d cs = Inr (l, n)"
proof (induction cs arbitrary: d)
  case Nil
  then show ?case by (auto split: option.splits)
next
  case (Cons c cs)
  from Cons.prems(1) have d: "t d = Some Dir" and rest: "lookup t (step d c) cs = Inr (l, n)"
    by (auto split: option.splits node.splits)
  from d Cons.prems(2) have "d \<noteq> k" by auto
  with d Cons.IH [OF rest Cons.prems(2,3)] show ?case by simp
qed

lemma lookup_stable_dir:
  assumes "lookup t d cs = Inr (l, Dir)" and "t k \<noteq> Some Dir"
  shows "lookup (t(k \<mapsto> v)) d cs = Inr (l, Dir)"
proof -
  from lookup_node [OF assms(1)] assms(2) have "l \<noteq> k" by auto
  from lookup_stable [OF assms this] show ?thesis .
qed

lemma write_file_ok:
  assumes "write_file p x st = (st1, Inr ())"
  shows "p \<noteq> [] \<and> last p \<noteq> CHR ''/''
    \<and> (\<exists>d. lookup (files st) (start_loc st p) (butlast (components p)) = Inr (d, Dir)
          \<and> last (components p) \<noteq> ''.'' \<and> last (components p) \<noteq> ''..''
          \<and> files st (d @ [last (components p)]) \<noteq> Some Dir
          \<and> st1 = st\<lparr>files := (files st)(d @ [last (components p)] \<mapsto> File x)\<rparr>)"
  using assms
  by (auto simp add: write_file_def split: if_splits sum.splits prod.splits node.splits
      option.splits)

lemma write_file_read_back:
  assumes "write_file p x st = (st1, Inr ())"
  shows "read_file p st1 = Inr x"
proof -
  from write_file_ok [OF assms] obtain d where p: "p \<noteq> []" "last p \<noteq> CHR ''/''"
    and d: "lookup (files st) (start_loc st p) (butlast (components p)) = Inr (d, Dir)"
    and c: "last (components p) \<noteq> ''.''" "last (components p) \<noteq> ''..''"
    and free: "files st (d @ [last (components p)]) \<noteq> Some Dir"
    and st1: "st1 = st\<lparr>files := (files st)(d @ [last (components p)] \<mapsto> File x)\<rparr>"
    by blast
  let ?c = "last (components p)"
  let ?t1 = "(files st)(d @ [?c] \<mapsto> File x)"
  have cs: "components p = butlast (components p) @ [?c]"
    using components_last(1) [OF p] by simp
  have "lookup ?t1 (start_loc st p) (butlast (components p)) = Inr (d, Dir)"
    by (rule lookup_stable_dir [OF d free])
  then have "lookup ?t1 (start_loc st p) (butlast (components p) @ [?c]) = Inr (d @ [?c], File x)"
    using c by (simp add: lookup_snoc step_def)
  with cs have "lookup ?t1 (start_loc st p) (components p) = Inr (d @ [?c], File x)"
    by simp
  moreover have "start_loc st1 p = start_loc st p" and "files st1 = ?t1"
    by (simp_all add: st1 start_loc_def)
  ultimately show ?thesis
    using p by (simp add: read_file_def stat_def)
qed


lemma read_file_logging_info [simp]: "read_file p (logging_info m st) = read_file p st"
  by (simp add: read_file_def stat_def start_loc_def logging_info_def)



section \<open>The driver\<close>


lemma main_loop_failure:
  "update w cc config (logging_info (ProcessingCategory name) st) = (st1, Inl e) \<Longrightarrow>
   main_loop update w config ((name, cc) # later) st
     = main_loop update w config later (logging_error (FailedToProcess name e) st1)"
  by simp

lemma main_loop_success:
  "update w cc config (logging_info (ProcessingCategory name) st) = (st1, Inr ()) \<Longrightarrow>
   main_loop update w config ((name, cc) # later) st
     = main_loop update w config later (logging_info (SuccessfullyUpdated name) st1)"
  by simp



lemma update_category_data_raises:
  "\<exists>st1 e. update_category_data w cc gc st = (st1, Inl e)
      \<and> (\<forall>l x. files st1 l = Some (File x) \<longleftrightarrow> files st l = Some (File x))"
proof -
  obtain st1 r where m: "makedirs (output_dir cc) st = (st1, r)"
    by (cases "makedirs (output_dir cc) st")
  from makedirs_keeps_files [OF m] show ?thesis
    unfolding update_category_data_unfold m by (cases r) auto
qed

lemma main_loop_writes_no_file:
  "files (main_loop update_category_data w config cats st) l = Some (File x)
     \<longleftrightarrow> files st l = Some (File x)"
proof (induction cats arbitrary: st)
  case Nil
  show ?case by simp
next
  case (Cons a cats)
  obtain name cc where a: "a = (name, cc)" by (cases a)
  let ?st0 = "logging_info (ProcessingCategory name) st"
  obtain st1 e where u: "update_category_data w cc config ?st0 = (st1, Inl e)"
    and keep: "\<forall>l x. files st1 l = Some (File x) \<longleftrightarrow> files ?st0 l = Some (File x)"
    using update_category_data_raises [of w cc config ?st0] by blast
  have "files (main_loop update_category_data w config (a # cats) st) l = Some (File x)
      \<longleftrightarrow> files (logging_error (FailedToProcess name e) st1) l = Some (File x)"
    by (simp add: a u Cons.IH)
  also have "\<dots> \<longleftrightarrow> files ?st0 l = Some (File x)"
    using keep by (simp add: logging_error_def)
  finally show ?case by (simp add: logging_info_def)
qed

lemma main_writes_no_file:
  "files (main w config st) l = Some (File x) \<longleftrightarrow> files st l = Some (File x)"
  unfolding main_def main_with_def by (rule main_loop_writes_no_file)

lemma main_source_run:
  "main
     \<lparr>read_yaml = (\<lambda>f. Inl (YAMLError f)),
      http_get_json = (\<lambda>u. Inr (PayloadObject NoOfficial)),
      today = ''2024-01-05'', str_title = ascii_title\<rparr>
     \<lparr>categories =
        [(''nlp'', \<lparr>query = ''cat:cs.CL'', output_dir = ''papers/cs.CL'',
            json_path = ''papers/cs.CL/papers.json'', md_path = ''papers/cs.CL/README.md''\<rparr>),
         (''vision'', \<lparr>query = ''cat:cs.CV'', output_dir = ''papers/cs.CV'',
            json_path = ''papers/cs.CV/papers.json'', md_path = ''papers/cs.CV/README.md''\<rparr>)],
      max_results = 1\<rparr>
     \<lparr>files = (\<lambda>l. None)([] \<mapsto> Dir), cwd = [], logged = [], stdout = []\<rparr>
   = \<lparr>files = (\<lambda>l. None)([] \<mapsto> Dir, [''papers''] \<mapsto> Dir, [''papers'', ''cs.CL''] \<mapsto> Dir,
        [''papers'', ''cs.CV''] \<mapsto> Dir),
      cwd = [],
      logged =
        [(INFO, ProcessingCategory ''nlp''),
         (ERROR, FailedToProcess ''nlp'' (NameError ''Client'')),
         (INFO, ProcessingCategory ''vision''),
         (ERROR, FailedToProcess ''vision'' (NameError ''Client''))],
      stdout = []\<rparr>"
  by (simp add: main_def main_with_def update_category_data_unfold makedirs_def components_def
      start_loc_def step_def logging_info_def logging_error_def)

section \<open>Code links and identifiers\<close>

lemma get_code_link_try_http_error:
  "http_get_json w (''https://arxiv.paperswithcode.com/api/v0/papers/'' @ paper_id) = Inl e
    \<Longrightarrow> get_code_link_try w paper_id = Inl e"
  by (simp add: get_code_link_try_def)

lemma get_code_link_caught:
  "get_code_link_try w paper_id = Inl e
    \<Longrightarrow> get_code_link w paper_id st = (logging_error (FailedCodeLink paper_id e) st, None)"
  by (simp add: get_code_link_def)

lemma get_code_link_malformed:
  "http_get_json w (''https://arxiv.paperswithcode.com/api/v0/papers/'' @ paper_id) = Inr response
    \<Longrightarrow> response = PayloadOther \<or> response = PayloadObject OfficialOther
    \<Longrightarrow> get_code_link w paper_id st
        = (logging_error (FailedCodeLink paper_id (AttributeError ''get'')) st, None)"
  by (auto simp add: get_code_link_def get_code_link_try_def official_url_def)

lemma process_result_record:
  "get_code_link w (split_first CHR ''v'' (short_id result)) st = (st1, link) \<Longrightarrow>
   process_result w result papers st =
     (st1, Inr (dict_setitem (short_id result)
        \<lparr>title = hit_title result, authors = join '', '' (hit_authors result),
         abstract = replace_char (CHR 0x0A) CHR '' '' (summary result),
         pdf = ''http://arxiv.org/abs/'' @ split_first CHR ''v'' (short_id result),
         code = or_null link, updated = updated_date result\<rparr> papers))"
  by (simp add: process_result_def get_authors_def ARXIV_URL_def Let_def)

lemma process_result_returns:
  "\<exists>st1 papers1. process_result w result papers st = (st1, Inr papers1)"
proof -
  obtain st1 link where "get_code_link w (split_first CHR ''v'' (short_id result)) st = (st1, link)"
    by (cases "get_code_link w (split_first CHR ''v'' (short_id result)) st")
  from process_result_record [OF this] show ?thesis by blast
qed

lemma fetch_loop_returns:
  "\<exists>st1 papers1. fetch_loop w results papers st = (st1, Inr papers1)"
proof (induction results arbitrary: papers st)
  case Nil
  show ?case by simp
next
  case (Cons result rest)
  obtain st1 papers1 where "process_result w result papers st = (st1, Inr papers1)"
    using process_result_returns by blast
  with Cons.IH [of papers1 st1] show ?case by simp
qed

text \<open>
  C4. For every paper identifier, when the request to the code-link service or the
  parsing of its answer raises, \<open>get_code_link\<close> logs the failure and returns \<open>None\<close>: its
  result carries no exception. When that identifier is the version-stripped identifier
  of a search result, the loop body completes for that result, and the record stored
  under the result's identifier has the code field \<open>"null"\<close>. The loop over the
  results of a search never raises, whatever the lookups do.
\<close>

theorem code_link_failure_gives_null:
  assumes "http_get_json w (''https://arxiv.paperswithcode.com/api/v0/papers/'' @ paper_id) = Inl e"
  shows "get_code_link w paper_id st = (logging_error (FailedCodeLink paper_id e) st, None)
    \<and> (split_first CHR ''v'' (short_id result) = paper_id \<longrightarrow>
         (\<exists>papers1 r. process_result w result papers st
              = (logging_error (FailedCodeLink paper_id e) st, Inr papers1)
            \<and> map_of papers1 (short_id result) = Some r \<and> code r = ''null''))
    \<and> (\<exists>st1 papers1. fetch_loop w results papers0 st0 = (st1, Inr papers1))"
proof -
  have g: "get_code_link w paper_id st = (logging_error (FailedCodeLink paper_id e) st, None)"
    by (rule get_code_link_caught [OF get_code_link_try_http_error [OF assms]])
  show ?thesis
  proof (intro conjI impI)
    show "get_code_link w paper_id st = (logging_error (FailedCodeLink paper_id e) st, None)"
      by (rule g)
  next
    assume c: "split_first CHR ''v'' (short_id result) = paper_id"
    from g have "get_code_link w (split_first CHR ''v'' (short_id result)) st
        = (logging_error (FailedCodeLink paper_id e) st, None)"
      by (simp add: c)
    from process_result_record [OF this, of papers]
    show "\<exists>papers1 r. process_result w result papers st
              = (logging_error (FailedCodeLink paper_id e) st, Inr papers1)
            \<and> map_of papers1 (short_id result) = Some r \<and> code r = ''null''"
      by (simp add: map_of_setitem or_null_def)
  next
    show "\<exists>st1 papers1. fetch_loop w results papers0 st0 = (st1, Inr papers1)"
      by (rule fetch_loop_returns)
  qed
qed

theorem code_link_failure_gives_null_witness:
  "http_get_json
     \<lparr>read_yaml = (\<lambda>f. Inl (YAMLError f)), http_get_json = (\<lambda>u. Inl (RequestException u)),
      today = ''2024-01-05'', str_title = ascii_title\<rparr>
     (''https://arxiv.paperswithcode.com/api/v0/papers/'' @ ''2401.00001'')
   = Inl (RequestException ''https://arxiv.paperswithcode.com/api/v0/papers/2401.00001'')
   \<and> split_first CHR ''v'' ''2401.00001v1'' = ''2401.00001''
   \<and> (\<exists>papers1 r.
        process_result
          \<lparr>read_yaml = (\<lambda>f. Inl (YAMLError f)), http_get_json = (\<lambda>u. Inl (RequestException u)),
           today = ''2024-01-05'', str_title = ascii_title\<rparr>
          \<lparr>short_id = ''2401.00001v1'', hit_title = ''Example Paper'',
           hit_authors = [''Jane Doe''], summary = ''Line1'' @ [CHR 0x0A] @ ''Line2'',
           updated_date = ''2024-01-02''\<rparr>
          [] \<lparr>files = (\<lambda>l. None)([] \<mapsto> Dir), cwd = [], logged = [], stdout = []\<rparr>
        = (\<lparr>files = (\<lambda>l. None)([] \<mapsto> Dir), cwd = [],
            logged = [(ERROR, FailedCodeLink ''2401.00001''
              (RequestException ''https://arxiv.paperswithcode.com/api/v0/papers/2401.00001''))],
            stdout = []\<rparr>, Inr papers1)
        \<and> map_of papers1 ''2401.00001v1'' = Some r \<and> code r = ''null'')"
proof -
  let ?w = "\<lparr>read_yaml = (\<lambda>f. Inl (YAMLError f)), http_get_json = (\<lambda>u. Inl (RequestException u)),
      today = ''2024-01-05'', str_title = ascii_title\<rparr>"
  let ?h = "\<lparr>short_id = ''2401.00001v1'', hit_title = ''Example Paper'',
      hit_authors = [''Jane Doe''], summary = ''Line1'' @ [CHR 0x0A] @ ''Line2'',
      updated_date = ''2024-01-02''\<rparr>"
  have net: "http_get_json ?w (''https://arxiv.paperswithcode.com/api/v0/papers/'' @ ''2401.00001'')
      = Inl (RequestException ''https://arxiv.paperswithcode.com/api/v0/papers/2401.00001'')"
    by simp
  have cid: "split_first CHR ''v'' ''2401.00001v1'' = ''2401.00001''"
    by (simp add: split_first_def)
  from code_link_failure_gives_null
    [OF net, where st = "\<lparr>files = (\<lambda>l. None)([] \<mapsto> Dir), cwd = [], logged = [], stdout = []\<rparr>"
      and result = ?h and papers = "[]"]
  show ?thesis
    by (simp add: cid logging_error_def)
qed

lemma split_first_versioned:
  "c \<notin> set base \<Longrightarrow> split_first c (base @ c # n) = base"
  by (induction base) (auto simp add: split_first_def)

lemma split_first_plain: "c \<notin> set s \<Longrightarrow> split_first c s = s"
  by (induction s) (auto simp add: split_first_def)

text \<open>
  C9 (the code at the failing input). The claim says that the canonical identifier of
  \<open><base>v<n>\<close> is \<open><base>\<close> and that an identifier without a version suffix is unchanged.
  \<open>paper_id.split('v')[0]\<close> cuts at the first \<open>v\<close>, wherever it is: for the old-style
  identifier \<open>solv-int/9901001v1\<close> the PDF link is built from \<open>sol\<close>, and the same
  identifier without a version suffix is cut to \<open>sol\<close> as well.
\<close>

theorem clean_id_cuts_at_first_v:
  "process_result
     \<lparr>read_yaml = (\<lambda>f. Inl (YAMLError f)),
      http_get_json = (\<lambda>u. Inr (PayloadObject NoOfficial)),
      today = ''2024-01-05'', str_title = ascii_title\<rparr>
     \<lparr>short_id = ''solv-int/9901001v1'', hit_title = ''Integrable Paper'',
      hit_authors = [''Jane Doe''], summary = ''Text'',
      updated_date = ''1999-01-04''\<rparr>
     [] \<lparr>files = (\<lambda>l. None)([] \<mapsto> Dir), cwd = [], logged = [], stdout = []\<rparr>
   = (\<lparr>files = (\<lambda>l. None)([] \<mapsto> Dir), cwd = [], logged = [], stdout = []\<rparr>,
      Inr [(''solv-int/9901001v1'',
        \<lparr>title = ''Integrable Paper'', authors = ''Jane Doe'', abstract = ''Text'',
         pdf = ''http://arxiv.org/abs/sol'', code = ''null'',
         updated = ''1999-01-04''\<rparr>)])
   \<and> split_first CHR ''v'' ''solv-int/9901001v1'' = ''sol''
   \<and> split_first CHR ''v'' ''solv-int/9901001'' = ''sol''"
  by (simp add: process_result_def get_code_link_def get_code_link_try_def official_url_def
      get_authors_def or_null_def split_first_def replace_char_def ARXIV_URL_def Let_def)


section \<open>The renderer\<close>

lemma mset_sorted_reverse: "mset (sorted_reverse key xs) = mset xs"
  by (simp add: sorted_reverse_def)

lemma length_sorted_reverse: "length (sorted_reverse key xs) = length xs"
  by (simp add: sorted_reverse_def)

lemma sorted_reverse_descending:
  "sorted_wrt (\<lambda>a b. key b \<le> key a) (sorted_reverse key xs)"
proof -
  have "sorted (map key (sort_key key (rev xs)))"
    by (rule sorted_sort_key)
  then have "sorted_wrt (\<lambda>a b. key a \<le> key b) (sort_key key (rev xs))"
    by (simp add: sorted_wrt_map)
  then show ?thesis
    by (simp add: sorted_reverse_def sorted_wrt_rev)
qed

lemma join_Cons: "xs \<noteq> [] \<Longrightarrow> join sep (x # xs) = x @ sep @ join sep xs"
  by (cases xs) simp_all

lemma join_rows:
  "hs \<noteq> [] \<Longrightarrow> join [c] (hs @ rows) = join [c] hs @ concat (map (\<lambda>r. c # r) rows)"
proof (induction rows arbitrary: hs rule: rev_induct)
  case Nil
  show ?case by simp
next
  case (snoc r rows)
  have last: "join [c] (xs @ [r]) = join [c] xs @ c # r" if "xs \<noteq> []" for xs :: "string list"
    using that
  proof (induction xs)
    case Nil
    then show ?case by simp
  next
    case (Cons x xs)
    then show ?case by (cases xs) simp_all
  qed
  from snoc.prems have "hs @ rows \<noteq> []" by simp
  from last [OF this] snoc.IH [OF snoc.prems] show ?case by simp
qed

lemma split_at_lines:
  "\<forall>r \<in> set (r0 # rows). c \<notin> set r \<Longrightarrow>
     split_at c (r0 @ concat (map (\<lambda>r. c # r) rows)) = r0 # rows"
proof (induction rows arbitrary: r0)
  case Nil
  then show ?case by (simp add: split_at_plain)
next
  case (Cons r rows)
  from Cons.prems have "\<forall>x \<in> set (r # rows). c \<notin> set x" and "c \<notin> set r0" by simp_all
  with Cons.IH [of r] show ?case
    by (simp add: split_at_append split_at_plain)
qed

lemma split_at_rows:
  assumes "\<forall>r \<in> set rows. c \<notin> set r"
  shows "split_at c (h @ concat (map (\<lambda>r. c # r) rows)) = split_at c h @ rows"
proof (cases rows)
  case Nil
  then show ?thesis by simp
next
  case (Cons r rs)
  with assms split_at_lines [of r rs c] show ?thesis
    by (simp add: split_at_append)
qed

lemma md_row_one_line: "one_line p \<Longrightarrow> CHR 0x0A \<notin> set (md_row p)"
  by (simp add: md_row_def one_line_def Let_def)

lemma generate_markdown_read_back:
  assumes "generate_markdown w data output_path category_name st = (st1, Inr ())"
  shows "read_file output_path st1 = Inr (Text (join [CHR 0x0A] (md_content w data category_name)))"
proof -
  from assms obtain st0 where
    "write_file output_path (Text (join [CHR 0x0A] (md_content w data category_name))) st
       = (st0, Inr ())"
    and "st1 = logging_info (GeneratedMarkdown category_name output_path) st0"
    by (auto simp add: generate_markdown_def split: prod.splits sum.splits)
  with write_file_read_back show ?thesis by simp
qed

text \<open>
  C6 (as stated, refuted). The claim says that for every mapping the document has
  exactly one table row per entry. The renderer copies the fields into the row as they
  are, so a field with a newline spreads an entry over several lines: a mapping with
  one entry, whose title holds a newline, gives the same document, byte for byte, as a
  mapping with two entries; and a title of two lines gives two lines for one entry.
\<close>

theorem markdown_one_row_per_entry_counterexample:
  "join [CHR 0x0A] (md_content
      \<lparr>read_yaml = (\<lambda>f. Inl (YAMLError f)), http_get_json = (\<lambda>u. Inl (RequestException u)),
       today = ''2024-01-05'', str_title = ascii_title\<rparr>
      [(''2401.00001v1'',
        \<lparr>title = ''Example Paper | Jane Doe | [PDF](http://arxiv.org/abs/2401.00001) | null |''
                 @ [CHR 0x0A] @ ''| 2023-12-20 | Older Paper'',
         authors = ''John Roe'', abstract = ''Text'',
         pdf = ''http://arxiv.org/abs/2312.09999'', code = ''null'',
         updated = ''2024-01-02''\<rparr>)]
      ''cs.CL'')
   = join [CHR 0x0A] (md_content
      \<lparr>read_yaml = (\<lambda>f. Inl (YAMLError f)), http_get_json = (\<lambda>u. Inl (RequestException u)),
       today = ''2024-01-05'', str_title = ascii_title\<rparr>
      [(''2401.00001v1'',
        \<lparr>title = ''Example Paper'', authors = ''Jane Doe'', abstract = ''Line1 Line2'',
         pdf = ''http://arxiv.org/abs/2401.00001'', code = ''null'',
         updated = ''2024-01-02''\<rparr>),
       (''2312.09999v2'',
        \<lparr>title = ''Older Paper'', authors = ''John Roe'', abstract = ''Text'',
         pdf = ''http://arxiv.org/abs/2312.09999'', code = ''null'',
         updated = ''2023-12-20''\<rparr>)]
      ''cs.CL'')
   \<and> split_at (CHR 0x0A) (join [CHR 0x0A] (md_content
      \<lparr>read_yaml = (\<lambda>f. Inl (YAMLError f)), http_get_json = (\<lambda>u. Inl (RequestException u)),
       today = ''2024-01-05'', str_title = ascii_title\<rparr>
      [(''2401.00001v1'',
        \<lparr>title = ''Example'' @ [CHR 0x0A] @ ''  Paper'', authors = ''Jane Doe'',
         abstract = ''Line1 Line2'', pdf = ''http://arxiv.org/abs/2401.00001'', code = ''null'',
         updated = ''2024-01-02''\<rparr>)]
      ''cs.CL''))
     = [''# Cs.Cl Papers'', ''*Last Updated: 2024-01-05*'', '''',
        ''| Date | Title | Authors | PDF | Code |'',
        ''|------|-------|---------|-----|------|'',
        ''| 2024-01-02 | Example'',
        ''  Paper | Jane Doe | [PDF](http://arxiv.org/abs/2401.00001) | null |'']"
  by code_simp

text \<open>
  C6 (amended). For every paper mapping whose records hold no newline in the rendered
  fields (updated, title, authors, pdf, code), the lines of the document are the lines
  of the header followed by exactly one line per entry of the mapping: each entry's
  table row, once, in an order in which the \<open>updated\<close> strings descend (byte-wise). When
  the renderer returns normally, reading the output path gives this document.
\<close>

theorem markdown_rows_sorted:
  assumes "\<forall>p \<in> snd ` set data. one_line p"
  shows "split_at (CHR 0x0A) (join [CHR 0x0A] (md_content w data category_name))
        = split_at (CHR 0x0A) (join [CHR 0x0A] (md_header w category_name))
          @ map md_row (sorted_papers data)
    \<and> length (map md_row (sorted_papers data)) = length data
    \<and> mset (sorted_papers data) = mset (map snd data)
    \<and> sorted_wrt (\<lambda>a b. updated b \<le> updated a) (sorted_papers data)
    \<and> (\<forall>output_path st st1.
          generate_markdown w data output_path category_name st = (st1, Inr ()) \<longrightarrow>
          read_file output_path st1
            = Inr (Text (join [CHR 0x0A] (md_content w data category_name))))"
proof -
  have perm: "mset (sorted_papers data) = mset (map snd data)"
    by (simp add: sorted_papers_def mset_sorted_reverse)
  then have "set (sorted_papers data) = snd ` set data"
    by (metis set_mset_mset set_map)
  with assms have rows: "\<forall>r \<in> set (map md_row (sorted_papers data)). CHR 0x0A \<notin> set r"
    by (auto simp add: md_row_one_line)
  have "join [CHR 0x0A] (md_content w data category_name)
      = join [CHR 0x0A] (md_header w category_name)
        @ concat (map (\<lambda>r. CHR 0x0A # r) (map md_row (sorted_papers data)))"
    unfolding md_content_def
    by (rule join_rows) (simp add: md_header_def)
  then have lines: "split_at (CHR 0x0A) (join [CHR 0x0A] (md_content w data category_name))
        = split_at (CHR 0x0A) (join [CHR 0x0A] (md_header w category_name))
          @ map md_row (sorted_papers data)"
    by (simp only: split_at_rows [OF rows])
  show ?thesis
    using lines perm generate_markdown_read_back
    by (simp add: sorted_papers_def length_sorted_reverse sorted_reverse_descending)
qed

theorem markdown_rows_sorted_witness:
  "one_line
        \<lparr>title = ''Older Paper'', authors = ''John Roe'', abstract = ''Text'',
         pdf = ''http://arxiv.org/abs/2312.09999'', code = ''https://github.com/jr/older'',
         updated = ''2023-12-20''\<rparr>
   \<and> one_line
        \<lparr>title = ''Example Paper'', authors = ''Jane Doe'', abstract = ''Line1 Line2'',
         pdf = ''http://arxiv.org/abs/2401.00001'', code = ''null'',
         updated = ''2024-01-02''\<rparr>
   \<and> generate_markdown
     \<lparr>read_yaml = (\<lambda>f. Inl (YAMLError f)), http_get_json = (\<lambda>u. Inl (RequestException u)),
      today = ''2024-01-05'', str_title = ascii_title\<rparr>
     [(''2312.09999v2'',
        \<lparr>title = ''Older Paper'', authors = ''John Roe'', abstract = ''Text'',
         pdf = ''http://arxiv.org/abs/2312.09999'', code = ''https://github.com/jr/older'',
         updated = ''2023-12-20''\<rparr>),
      (''2401.00001v1'',
        \<lparr>title = ''Example Paper'', authors = ''Jane Doe'', abstract = ''Line1 Line2'',
         pdf = ''http://arxiv.org/abs/2401.00001'', code = ''null'',
         updated = ''2024-01-02''\<rparr>)]
     ''papers/cs.CL/README.md'' ''cs.CL''
     \<lparr>files = (\<lambda>l. None)([] \<mapsto> Dir, [''papers''] \<mapsto> Dir, [''papers'', ''cs.CL''] \<mapsto> Dir),
      cwd = [], logged = [], stdout = []\<rparr>
   = (\<lparr>files = (\<lambda>l. None)([] \<mapsto> Dir, [''papers''] \<mapsto> Dir, [''papers'', ''cs.CL''] \<mapsto> Dir,
        [''papers'', ''cs.CL'', ''README.md''] \<mapsto> File (Text (join [CHR 0x0A]
          [''# Cs.Cl Papers'',
           ''*Last Updated: 2024-01-05*'' @ [CHR 0x0A],
           ''| Date | Title | Authors | PDF | Code |'',
           ''|------|-------|---------|-----|------|'',
           ''| 2024-01-02 | Example Paper | Jane Doe | [PDF](http://arxiv.org/abs/2401.00001) | null |'',
           ''| 2023-12-20 | Older Paper | John Roe | [PDF](http://arxiv.org/abs/2312.09999) | [Code](https://github.com/jr/older) |'']))),
       cwd = [],
       logged = [(INFO, GeneratedMarkdown ''cs.CL'' ''papers/cs.CL/README.md'')],
       stdout = []\<rparr>, Inr ())
   \<and> read_file ''papers/cs.CL/README.md''
       \<lparr>files = (\<lambda>l. None)([] \<mapsto> Dir, [''papers''] \<mapsto> Dir, [''papers'', ''cs.CL''] \<mapsto> Dir,
        [''papers'', ''cs.CL'', ''README.md''] \<mapsto> File (Text (join [CHR 0x0A]
          [''# Cs.Cl Papers'',
           ''*Last Updated: 2024-01-05*'' @ [CHR 0x0A],
           ''| Date | Title | Authors | PDF | Code |'',
           ''|------|-------|---------|-----|------|'',
           ''| 2024-01-02 | Example Paper | Jane Doe | [PDF](http://arxiv.org/abs/2401.00001) | null |'',
           ''| 2023-12-20 | Older Paper | John Roe | [PDF](http://arxiv.org/abs/2312.09999) | [Code](https://github.com/jr/older) |'']))),
       cwd = [],
       logged = [(INFO, GeneratedMarkdown ''cs.CL'' ''papers/cs.CL/README.md'')],
       stdout = []\<rparr>
     = Inr (Text (join [CHR 0x0A]
          [''# Cs.Cl Papers'',
           ''*Last Updated: 2024-01-05*'' @ [CHR 0x0A],
           ''| Date | Title | Authors | PDF | Code |'',
           ''|------|-------|---------|-----|------|'',
           ''| 2024-01-02 | Example Paper | Jane Doe | [PDF](http://arxiv.org/abs/2401.00001) | null |'',
           ''| 2023-12-20 | Older Paper | John Roe | [PDF](http://arxiv.org/abs/2312.09999) | [Code](https://github.com/jr/older) |'']))
   \<and> split_at (CHR 0x0A) (join [CHR 0x0A]
          [''# Cs.Cl Papers'',
           ''*Last Updated: 2024-01-05*'' @ [CHR 0x0A],
           ''| Date | Title | Authors | PDF | Code |'',
           ''|------|-------|---------|-----|------|'',
           ''| 2024-01-02 | Example Paper | Jane Doe | [PDF](http://arxiv.org/abs/2401.00001) | null |'',
           ''| 2023-12-20 | Older Paper | John Roe | [PDF](http://arxiv.org/abs/2312.09999) | [Code](https://github.com/jr/older) |''])
     = [''# Cs.Cl Papers'', ''*Last Updated: 2024-01-05*'', '''',
        ''| Date | Title | Authors | PDF | Code |'',
        ''|------|-------|---------|-----|------|'',
        ''| 2024-01-02 | Example Paper | Jane Doe | [PDF](http://arxiv.org/abs/2401.00001) | null |'',
        ''| 2023-12-20 | Older Paper | John Roe | [PDF](http://arxiv.org/abs/2312.09999) | [Code](https://github.com/jr/older) |'']"
proof -
  let ?w = "\<lparr>read_yaml = (\<lambda>f. Inl (YAMLError f)), http_get_json = (\<lambda>u. Inl (RequestException u)),
      today = ''2024-01-05'', str_title = ascii_title\<rparr>"
  let ?data = "[(''2312.09999v2'',
        \<lparr>title = ''Older Paper'', authors = ''John Roe'', abstract = ''Text'',
         pdf = ''http://arxiv.org/abs/2312.09999'', code = ''https://github.com/jr/older'',
         updated = ''2023-12-20''\<rparr>),
      (''2401.00001v1'',
        \<lparr>title = ''Example Paper'', authors = ''Jane Doe'', abstract = ''Line1 Line2'',
         pdf = ''http://arxiv.org/abs/2401.00001'', code = ''null'',
         updated = ''2024-01-02''\<rparr>)]"
  let ?st = "\<lparr>files = (\<lambda>l. None)([] \<mapsto> Dir, [''papers''] \<mapsto> Dir, [''papers'', ''cs.CL''] \<mapsto> Dir),
      cwd = [], logged = [], stdout = []\<rparr>"
  let ?lines = "[''# Cs.Cl Papers'',
           ''*Last Updated: 2024-01-05*'' @ [CHR 0x0A],
           ''| Date | Title | Authors | PDF | Code |'',
           ''|------|-------|---------|-----|------|'',
           ''| 2024-01-02 | Example Paper | Jane Doe | [PDF](http://arxiv.org/abs/2401.00001) | null |'',
           ''| 2023-12-20 | Older Paper | John Roe | [PDF](http://arxiv.org/abs/2312.09999) | [Code](https://github.com/jr/older) |'']"
  let ?st1 = "\<lparr>files = (\<lambda>l. None)([] \<mapsto> Dir, [''papers''] \<mapsto> Dir, [''papers'', ''cs.CL''] \<mapsto> Dir,
        [''papers'', ''cs.CL'', ''README.md''] \<mapsto> File (Text (join [CHR 0x0A] ?lines))),
       cwd = [],
       logged = [(INFO, GeneratedMarkdown ''cs.CL'' ''papers/cs.CL/README.md'')],
       stdout = []\<rparr>"
  have single: "\<forall>p \<in> snd ` set ?data. one_line p"
    by (simp add: one_line_def)
  have content: "md_content ?w ?data ''cs.CL'' = ?lines"
    by code_simp
  have rows: "map md_row (sorted_papers ?data) = drop 4 ?lines"
    by code_simp
  have header: "split_at (CHR 0x0A) (join [CHR 0x0A] (md_header ?w ''cs.CL''))
      = [''# Cs.Cl Papers'', ''*Last Updated: 2024-01-05*'', '''',
         ''| Date | Title | Authors | PDF | Code |'',
         ''|------|-------|---------|-----|------|'']"
    by code_simp
  have g: "generate_markdown ?w ?data ''papers/cs.CL/README.md'' ''cs.CL'' ?st = (?st1, Inr ())"
    by (simp add: generate_markdown_def write_file_def components_def start_loc_def step_def
        content logging_info_def)
  from markdown_rows_sorted [OF single, of ?w "''cs.CL''"]
  have "split_at (CHR 0x0A) (join [CHR 0x0A] (md_content ?w ?data ''cs.CL''))
        = split_at (CHR 0x0A) (join [CHR 0x0A] (md_header ?w ''cs.CL''))
          @ map md_row (sorted_papers ?data)"
    and "read_file ''papers/cs.CL/README.md'' ?st1
        = Inr (Text (join [CHR 0x0A] (md_content ?w ?data ''cs.CL'')))"
    using g by blast+
  moreover have "one_line
        \<lparr>title = ''Older Paper'', authors = ''John Roe'', abstract = ''Text'',
         pdf = ''http://arxiv.org/abs/2312.09999'', code = ''https://github.com/jr/older'',
         updated = ''2023-12-20''\<rparr>"
    and "one_line
        \<lparr>title = ''Example Paper'', authors = ''Jane Doe'', abstract = ''Line1 Line2'',
         pdf = ''http://arxiv.org/abs/2401.00001'', code = ''null'',
         updated = ''2024-01-02''\<rparr>"
    using single by simp_all
  ultimately show ?thesis
    using g
    by (simp only: rows content header drop_Suc_Cons drop_0 numeral_eq_Suc pred_numeral_simps
        arith_simps simp_thms append.simps)
qed

section \<open>The configuration\<close>

lemma load_config_categories:
  "load_config w config_file st = (st1, Inr cfg) \<Longrightarrow> (name, cat) \<in> set (categories cfg)
    \<Longrightarrow> \<exists>y. cat = derive_paths y"
  by (auto simp add: load_config_def Let_def split: sum.splits)

text \<open>
  C10. For every category entry of a configuration that \<open>load_config\<close> returns,
  \<open>json_path\<close> is \<open>os.path.join(output_dir, 'papers.json')\<close> and \<open>md_path\<close> is
  \<open>os.path.join(output_dir, 'README.md')\<close>; any two loaded entries with the same
  \<open>output_dir\<close> have the same two paths, whatever file, world or state they came from.
\<close>

theorem load_config_paths:
  assumes "load_config w config_file st = (st1, Inr cfg)"
    and "(name, cat) \<in> set (categories cfg)"
  shows "json_path cat = path_join (output_dir cat) ''papers.json''
    \<and> md_path cat = path_join (output_dir cat) ''README.md''
    \<and> (\<forall>w' config_file' st' st1' cfg' name' cat'.
          load_config w' config_file' st' = (st1', Inr cfg')
          \<and> (name', cat') \<in> set (categories cfg')
          \<and> output_dir cat' = output_dir cat
          \<longrightarrow> json_path cat' = json_path cat \<and> md_path cat' = md_path cat)"
proof -
  have paths: "json_path c = path_join (output_dir c) ''papers.json''
      \<and> md_path c = path_join (output_dir c) ''README.md''"
    if "load_config w' f' s' = (s1', Inr cfg')" and "(n', c) \<in> set (categories cfg')"
    for w' f' s' s1' cfg' n' c
  proof -
    from load_config_categories [OF that] obtain y where "c = derive_paths y" by blast
    then show ?thesis by (simp add: derive_paths_def)
  qed
  from paths [OF assms] show ?thesis
    by (auto dest: paths)
qed

lemma path_join_plain:
  "d \<noteq> [] \<Longrightarrow> last d \<noteq> CHR ''/'' \<Longrightarrow> path_join d ''papers.json'' = d @ ''/papers.json''
     \<and> path_join d ''README.md'' = d @ ''/README.md''"
  by (simp add: path_join_def)

theorem load_config_paths_witness:
  "load_config
     \<lparr>read_yaml = (\<lambda>f. Inr \<lparr>yaml_categories =
          [(''nlp'', \<lparr>query = ''cat:cs.CL'', output_dir = ''papers/cs.CL''\<rparr>)],
          yaml_max_results = 1\<rparr>),
      http_get_json = (\<lambda>u. Inl (RequestException u)), today = ''2024-01-05'', str_title = ascii_title\<rparr>
     ''config.yaml'' \<lparr>files = (\<lambda>l. None)([] \<mapsto> Dir), cwd = [], logged = [], stdout = []\<rparr>
   = (\<lparr>files = (\<lambda>l. None)([] \<mapsto> Dir), cwd = [],
       logged = [(INFO, LoadedConfiguration
         \<lparr>categories = [(''nlp'', \<lparr>query = ''cat:cs.CL'', output_dir = ''papers/cs.CL'',
            json_path = ''papers/cs.CL/papers.json'', md_path = ''papers/cs.CL/README.md''\<rparr>)],
          max_results = 1\<rparr>)],
       stdout = []\<rparr>,
      Inr \<lparr>categories = [(''nlp'', \<lparr>query = ''cat:cs.CL'', output_dir = ''papers/cs.CL'',
            json_path = ''papers/cs.CL/papers.json'', md_path = ''papers/cs.CL/README.md''\<rparr>)],
          max_results = 1\<rparr>)
   \<and> json_path \<lparr>query = ''cat:cs.CL'', output_dir = ''papers/cs.CL'',
        json_path = ''papers/cs.CL/papers.json'', md_path = ''papers/cs.CL/README.md''\<rparr>
      = path_join ''papers/cs.CL'' ''papers.json''"
proof -
  let ?w = "\<lparr>read_yaml = (\<lambda>f. Inr \<lparr>yaml_categories =
          [(''nlp'', \<lparr>query = ''cat:cs.CL'', output_dir = ''papers/cs.CL''\<rparr>)],
          yaml_max_results = 1\<rparr>),
      http_get_json = (\<lambda>u. Inl (RequestException u)), today = ''2024-01-05'', str_title = ascii_title\<rparr>"
  let ?st = "\<lparr>files = (\<lambda>l. None)([] \<mapsto> Dir), cwd = [], logged = [], stdout = []\<rparr>"
  let ?cat = "\<lparr>query = ''cat:cs.CL'', output_dir = ''papers/cs.CL'',
            json_path = ''papers/cs.CL/papers.json'', md_path = ''papers/cs.CL/README.md''\<rparr>"
  let ?cfg = "\<lparr>categories = [(''nlp'', ?cat)], max_results = 1\<rparr>"
  have l: "load_config ?w ''config.yaml'' ?st = (logging_info (LoadedConfiguration ?cfg) ?st, Inr ?cfg)"
    by (simp add: load_config_def derive_paths_def path_join_def Let_def)
  have m: "(''nlp'', ?cat) \<in> set (categories ?cfg)" by simp
  from load_config_paths [OF l m] l show ?thesis
    by (simp add: logging_info_def)
qed

end
